theory Spec2Isabelle
  imports Complex_Main "HOL-Library.Char_ord" "HOL-Library.List_Lexorder" "HOL-Library.AList"
    "HOL-Library.Sublist"
begin

section \<open>JavaScript numbers\<close>

text \<open>
  A JavaScript \<^verbatim>\<open>number\<close> is an IEEE 754 double. It is modelled by its special values
  and, for a finite value, by the rational it denotes. Comparisons, \<^verbatim>\<open>Math.max\<close>,
  \<^verbatim>\<open>Math.min\<close> and \<^verbatim>\<open>x || 0\<close> are exact on doubles and follow ECMAScript on
  \<^verbatim>\<open>NaN\<close> and the infinities. A product and a quotient are the exact result rounded to
  the nearest double, ties to even (\<open>to_double\<close> below): they underflow to zero and
  overflow to an infinity. The sign of zero is not modelled.
\<close>

datatype jsnum = NaN | NInf | Fin rat | PInf

fun js_lt :: "jsnum \<Rightarrow> jsnum \<Rightarrow> bool" where
  "js_lt (Fin a) (Fin b) = (a < b)"
| "js_lt NInf (Fin b) = True"
| "js_lt NInf PInf = True"
| "js_lt (Fin a) PInf = True"
| "js_lt _ _ = False"

definition js_gt :: "jsnum \<Rightarrow> jsnum \<Rightarrow> bool" where
  "js_gt a b = js_lt b a"

definition js_le :: "jsnum \<Rightarrow> jsnum \<Rightarrow> bool" where
  "js_le a b = (a \<noteq> NaN \<and> b \<noteq> NaN \<and> \<not> js_lt b a)"

definition js_ge :: "jsnum \<Rightarrow> jsnum \<Rightarrow> bool" where
  "js_ge a b = js_le b a"

fun isFinite :: "jsnum \<Rightarrow> bool" where
  "isFinite (Fin a) = True"
| "isFinite _ = False"

definition js_max :: "jsnum \<Rightarrow> jsnum \<Rightarrow> jsnum" where
  "js_max a b = (if a = NaN \<or> b = NaN then NaN else if js_lt a b then b else a)"

definition js_min :: "jsnum \<Rightarrow> jsnum \<Rightarrow> jsnum" where
  "js_min a b = (if a = NaN \<or> b = NaN then NaN else if js_lt b a then b else a)"

fun js_sign :: "jsnum \<Rightarrow> int" where
  "js_sign (Fin a) = (if a < 0 then - 1 else if a = 0 then 0 else 1)"
| "js_sign PInf = 1"
| "js_sign NInf = - 1"
| "js_sign NaN = 0"

text \<open>The number of binary digits of a positive integer.\<close>

function bitLength :: "int \<Rightarrow> int" where
  "bitLength x = (if x \<le> 0 then 0 else 1 + bitLength (x div 2))"
  by pat_completeness auto
termination
  by (relation "measure nat") auto

declare bitLength.simps [simp del]

text \<open>The binary exponent of a positive rational: \<open>2\<^sup>e \<le> a < 2\<^sup>e\<^sup>+\<^sup>1\<close> for \<open>e = ilog2 a\<close>.\<close>

definition ilog2 :: "rat \<Rightarrow> int" where
  "ilog2 a = (if 1 \<le> a then bitLength \<lfloor>a\<rfloor> - 1 else - bitLength (\<lceil>1 / a\<rceil> - 1))"

definition roundTiesToEven :: "rat \<Rightarrow> int" where
  "roundTiesToEven m =
     (let f = \<lfloor>m\<rfloor>; d = m - of_int f in
      if d < 1 / 2 then f else if 1 / 2 < d then f + 1 else if even f then f else f + 1)"

text \<open>
  The double nearest to a rational. A double has 53 significant binary digits; its
  binary exponent is at least \<open>-1022\<close> (below that the spacing stays
  \<open>2\<^sup>-\<^sup>1\<^sup>0\<^sup>7\<^sup>4\<close>, the least positive double), and a result of \<open>2\<^sup>1\<^sup>0\<^sup>2\<^sup>4\<close> or more is an
  infinity.
\<close>

definition to_double :: "rat \<Rightarrow> jsnum" where
  "to_double r =
     (if r = 0 then Fin 0
      else let a = \<bar>r\<bar>;
               k = max (ilog2 a) (- 1022) - 52;
               v = of_int (roundTiesToEven (a / 2 powi k)) * 2 powi k
           in if 2 ^ 1024 \<le> v then (if r < 0 then NInf else PInf)
              else Fin (if r < 0 then - v else v))"

text \<open>\<^verbatim>\<open>Number.MIN_VALUE\<close>, the least positive double.\<close>

definition MIN_VALUE :: rat where
  "MIN_VALUE = 2 powi (- 1074)"

fun js_mul :: "jsnum \<Rightarrow> jsnum \<Rightarrow> jsnum" where
  "js_mul (Fin a) (Fin b) = to_double (a * b)"
| "js_mul a b =
     (if a = NaN \<or> b = NaN \<or> js_sign a * js_sign b = 0 then NaN
      else if 0 < js_sign a * js_sign b then PInf else NInf)"

text \<open>\<^verbatim>\<open>x / d\<close> for a positive finite constant \<^verbatim>\<open>d\<close>.\<close>

fun js_div_pos :: "jsnum \<Rightarrow> rat \<Rightarrow> jsnum" where
  "js_div_pos (Fin a) d = to_double (a / d)"
| "js_div_pos x d = x"

text \<open>\<^verbatim>\<open>x || 0\<close>: \<^verbatim>\<open>NaN\<close> and \<^verbatim>\<open>0\<close> are falsy.\<close>

definition js_or0 :: "jsnum \<Rightarrow> jsnum" where
  "js_or0 x = (if x = NaN \<or> x = Fin 0 then Fin 0 else x)"

text \<open>An optional parameter with a default: the default applies when it is undefined.\<close>

fun or_default :: "'a option \<Rightarrow> 'a \<Rightarrow> 'a" where
  "or_default None d = d"
| "or_default (Some v) d = v"

section \<open>Instructions, errors, constants and collaborators\<close>

text \<open>
  An instruction is opaque to the core but for its program: \<open>ComputeBudgetIx\<close> is an
  instruction whose \<^verbatim>\<open>programId\<close> is \<^verbatim>\<open>ComputeBudgetProgram.programId\<close>, whoever built it;
  \<open>TipIx to from amountSol\<close> is a tip instruction; \<open>ProgramIx\<close> is an instruction of any
  other program (program id, payload).
\<close>

datatype instruction =
    ComputeBudgetIx string
  | TipIx string string jsnum
  | ProgramIx string string

fun is_compute_budget :: "instruction \<Rightarrow> bool" where
  "is_compute_budget (ComputeBudgetIx d) = True"
| "is_compute_budget _ = False"

fun is_tip :: "instruction \<Rightarrow> bool" where
  "is_tip (TipIx t f a) = True"
| "is_tip _ = False"

text \<open>
  Modelled from the spec: \<^verbatim>\<open>createTipInstruction(to, from, amountSol)\<close> lives in
  \<^verbatim>\<open>helpers/instructions\<close>, which is not among the source files; it builds the one tip
  instruction addressed to the tip address.
\<close>

definition createTipInstruction :: "string \<Rightarrow> string \<Rightarrow> jsnum \<Rightarrow> instruction" where
  "createTipInstruction to from amountSol = TipIx to from amountSol"

datatype error =
    InvalidSlippage
  | SlippageOutOfRange
  | InvalidPoolAddress
  | InvalidPublicKey
  | UnsupportedMarket string
  | UnsupportedDirection string
  | VenueError string
  | TransportError
  | ApiStatus nat
  | SdkRejected string
  | PoolNotFound
  | PoolAddressNotFound

datatype provider = ASTRALANE | NOZOMI | JITO

datatype market =
    PUMP_FUN | PUMP_SWAP | RAYDIUM_AMM | RAYDIUM_CLMM | RAYDIUM_CPMM | RAYDIUM_LAUNCHPAD
  | METEORA_DLMM | METEORA_DAMM_V1 | METEORA_DAMM_V2 | METEORA_DBC | ORCA_WHIRLPOOL
  | MOONIT | HEAVEN | SUGAR | BOOP_FUN

datatype side = Buy | Sell

text \<open>
  The constant tables of \<^verbatim>\<open>helpers/constants\<close> are not among the source files; they are a
  parameter of every function that reads them.
\<close>

record config =
  Markets :: "market \<Rightarrow> string"
  SwapDirection_BUY :: string
  SwapDirection_SELL :: string
  DEV_TIP_ADDRESS :: string
  DEV_TIP_RATE :: jsnum
  NOZOMI_TIP_ADDRESSES :: "string list"
  ASTRALANE_TIP_ADDRESSES :: "string list"
  JITO_TIP_ADDRESSES :: "string list"
  NOZOMI_MIN_TIP_SOL :: jsnum
  ASTRALANE_MIN_TIP_SOL :: jsnum
  JITO_MIN_TIP_SOL :: jsnum

record venue_args =
  mintAddress :: string
  walletKey :: string
  amountArg :: jsnum
  slippageArg :: jsnum

text \<open>
  What the code reads from outside the repository during one call:
  \<^item> \<open>validKey s\<close>: \<^verbatim>\<open>new PublicKey(s)\<close> does not throw;
  \<^item> \<open>randomIndex n\<close>: the value of \<^verbatim>\<open>Math.floor(Math.random() * n)\<close>;
  \<^item> \<open>computeBudgetIxs fee\<close>: what \<^verbatim>\<open>createComputeBudgetInstructions(fee)\<close> of
    \<^verbatim>\<open>helpers/instructions\<close> returns;
  \<^item> \<open>TIP_ADDRESS_env\<close>: \<^verbatim>\<open>process.env.TIP_ADDRESS\<close>;
  \<^item> \<open>venueSdk m side args\<close>: for a venue whose client is among the source files, the
    outcome of its pool resolution and SDK calls: a rejection (its message) or the
    instructions of the transaction the SDK built; for any other venue, the outcome of
    the client's \<^verbatim>\<open>getBuyInstructions\<close>/\<^verbatim>\<open>getSellInstructions\<close> itself;
  \<^item> \<open>raydiumClmmSwap c side args\<close>: the same for the Raydium CLMM client, whose last SDK
    call is \<^verbatim>\<open>raydium.clmm.swap\<close>; \<open>c\<close> is the \<^verbatim>\<open>computeBudgetConfig\<close> property of the
    request object passed to it (\<open>None\<close> when the object has no such property).
\<close>

record computeBudgetConfig =
  cb_units :: nat
  cb_microLamports :: nat

record world =
  validKey :: "string \<Rightarrow> bool"
  randomIndex :: "nat \<Rightarrow> nat"
  computeBudgetIxs :: "jsnum \<Rightarrow> instruction list"
  TIP_ADDRESS_env :: "string option"
  venueSdk :: "market \<Rightarrow> side \<Rightarrow> venue_args \<Rightarrow> string + instruction list"
  raydiumClmmSwap ::
    "computeBudgetConfig option \<Rightarrow> side \<Rightarrow> venue_args \<Rightarrow> string + instruction list"

section \<open>Venue adapters: what is handed to the compiler\<close>

definition stripNonEssentialInstructions :: "instruction list \<Rightarrow> instruction list" where
  "stripNonEssentialInstructions ixs = filter (\<lambda>ix. \<not> is_compute_budget ix) ixs"

text \<open>
  \<^verbatim>\<open>getBuyInstructions\<close>/\<^verbatim>\<open>getSellInstructions\<close> of each client. The four Meteora clients
  return \<^verbatim>\<open>this.stripNonEssentialInstructions(tx.instructions)\<close>; the Raydium CLMM client
  returns \<^verbatim>\<open>make.transaction.instructions\<close> as they are, \<^verbatim>\<open>make\<close> being the answer to a
  \<^verbatim>\<open>raydium.clmm.swap\<close> request that has no \<^verbatim>\<open>computeBudgetConfig\<close>.
\<close>

fun clientInstructions ::
  "world \<Rightarrow> market \<Rightarrow> side \<Rightarrow> venue_args \<Rightarrow> string + instruction list" where
  "clientInstructions w METEORA_DLMM s a =
     map_sum id stripNonEssentialInstructions (venueSdk w METEORA_DLMM s a)"
| "clientInstructions w METEORA_DAMM_V1 s a =
     map_sum id stripNonEssentialInstructions (venueSdk w METEORA_DAMM_V1 s a)"
| "clientInstructions w METEORA_DAMM_V2 s a =
     map_sum id stripNonEssentialInstructions (venueSdk w METEORA_DAMM_V2 s a)"
| "clientInstructions w METEORA_DBC s a =
     map_sum id stripNonEssentialInstructions (venueSdk w METEORA_DBC s a)"
| "clientInstructions w RAYDIUM_CLMM s a = raydiumClmmSwap w None s a"
| "clientInstructions w m s a = venueSdk w m s a"

section \<open>The compiler: \<^verbatim>\<open>buildTransaction\<close> (builder.ts)\<close>

record build_params =
  bp_market :: string
  bp_direction :: string
  bp_wallet :: string
  bp_mint :: string
  bp_amount :: jsnum
  bp_slippage :: jsnum
  bp_priorityFeeSol :: "jsnum option"
  bp_tipAmountSol :: "jsnum option"

record transaction =
  instructions :: "instruction list"
  feePayer :: "string option"

definition switch_order :: "market list" where
  "switch_order =
     [PUMP_FUN, PUMP_SWAP, RAYDIUM_AMM, RAYDIUM_CLMM, RAYDIUM_CPMM, RAYDIUM_LAUNCHPAD,
      METEORA_DLMM, METEORA_DAMM_V1, METEORA_DAMM_V2, METEORA_DBC, ORCA_WHIRLPOOL,
      MOONIT, HEAVEN, SUGAR, BOOP_FUN]"

definition createMarketClient :: "config \<Rightarrow> string \<Rightarrow> error + market" where
  "createMarketClient cfg m =
     (case find (\<lambda>c. Markets cfg c = m) switch_order of
        Some c \<Rightarrow> Inr c
      | None \<Rightarrow> Inl (UnsupportedMarket m))"

definition createDirectionInvoker :: "config \<Rightarrow> string \<Rightarrow> error + side" where
  "createDirectionInvoker cfg d =
     (if d = SwapDirection_BUY cfg then Inr Buy
      else if d = SwapDirection_SELL cfg then Inr Sell
      else Inl (UnsupportedDirection d))"

text \<open>The optional upfront tip of the builder: any failure inside its \<^verbatim>\<open>try\<close> is ignored.\<close>

definition builderTip :: "world \<Rightarrow> string \<Rightarrow> jsnum \<Rightarrow> instruction list" where
  "builderTip w wallet tipAmountSol =
     (if js_gt tipAmountSol (Fin 0) then
        (case TIP_ADDRESS_env w of
           None \<Rightarrow> []
         | Some a \<Rightarrow>
             if a \<noteq> [] \<and> validKey w a then [createTipInstruction a wallet tipAmountSol]
             else [])
      else [])"

definition buildTransaction :: "config \<Rightarrow> world \<Rightarrow> build_params \<Rightarrow> error + transaction" where
  "buildTransaction cfg w p =
     (if js_lt (bp_slippage p) (Fin 0) \<or> js_gt (bp_slippage p) (Fin 1)
      then Inl SlippageOutOfRange
      else
        let budgetIx = computeBudgetIxs w (or_default (bp_priorityFeeSol p) (Fin (1 / 10000)));
            tipIx = builderTip w (bp_wallet p) (or_default (bp_tipAmountSol p) (Fin 0))
        in case createMarketClient cfg (bp_market p) of
             Inl e \<Rightarrow> Inl e
           | Inr client \<Rightarrow>
               (case createDirectionInvoker cfg (bp_direction p) of
                  Inl e \<Rightarrow> Inl e
                | Inr s \<Rightarrow>
                    (case clientInstructions w client s
                            \<lparr>mintAddress = bp_mint p, walletKey = bp_wallet p,
                             amountArg = bp_amount p, slippageArg = bp_slippage p\<rparr> of
                       Inl msg \<Rightarrow> Inl (VenueError msg)
                     | Inr marketInstructions \<Rightarrow>
                         Inr \<lparr>instructions = budgetIx @ tipIx @ marketInstructions,
                              feePayer = Some (bp_wallet p)\<rparr>)))"

section \<open>The router: \<^verbatim>\<open>SolanaTrade\<close> (trader.ts)\<close>

text \<open>A \<^verbatim>\<open>PublicKey | string\<close> argument.\<close>

datatype key_input = KeyObject string | KeyString string

record trade_params =
  tp_market :: string
  tp_wallet :: string
  tp_mint :: key_input
  tp_amount :: jsnum
  tp_slippage :: jsnum
  tp_priorityFeeSol :: "jsnum option"
  tp_tipAmountSol :: "jsnum option"
  tp_poolAddress :: "key_input option"
  tp_sender :: "provider option"

fun normalizeMint :: "world \<Rightarrow> key_input \<Rightarrow> error + string" where
  "normalizeMint w (KeyObject k) = Inr k"
| "normalizeMint w (KeyString s) = (if validKey w s then Inr s else Inl InvalidPublicKey)"

fun normalizePoolAddress :: "world \<Rightarrow> key_input option \<Rightarrow> error + string option" where
  "normalizePoolAddress w None = Inr None"
| "normalizePoolAddress w (Some (KeyObject k)) = Inr (Some k)"
| "normalizePoolAddress w (Some (KeyString s)) =
     (if validKey w s then Inr (Some s) else Inl InvalidPoolAddress)"

definition normalizeSlippage :: "jsnum \<Rightarrow> error + jsnum" where
  "normalizeSlippage slippagePercent =
     (if \<not> isFinite slippagePercent then Inl InvalidSlippage
      else Inr (js_div_pos (js_max (Fin 0) (js_min (Fin 100) slippagePercent)) 100))"

definition chooseProvider :: "provider option \<Rightarrow> jsnum option \<Rightarrow> provider option" where
  "chooseProvider provided tipSol =
     (let tip = js_or0 (or_default tipSol (Fin 0)) in
      if js_le tip (Fin 0) then None
      else case provided of
             Some p \<Rightarrow> Some p
           | None \<Rightarrow> if js_ge tip (Fin (1 / 1000)) then Some NOZOMI else Some ASTRALANE)"

fun tipAddresses :: "config \<Rightarrow> provider \<Rightarrow> string list" where
  "tipAddresses cfg NOZOMI = NOZOMI_TIP_ADDRESSES cfg"
| "tipAddresses cfg ASTRALANE = ASTRALANE_TIP_ADDRESSES cfg"
| "tipAddresses cfg JITO = JITO_TIP_ADDRESSES cfg"

fun minTip :: "config \<Rightarrow> provider \<Rightarrow> jsnum" where
  "minTip cfg NOZOMI = NOZOMI_MIN_TIP_SOL cfg"
| "minTip cfg ASTRALANE = ASTRALANE_MIN_TIP_SOL cfg"
| "minTip cfg JITO = JITO_MIN_TIP_SOL cfg"

text \<open>
  \<^verbatim>\<open>list[i]\<close> out of range is \<^verbatim>\<open>undefined\<close>, and \<^verbatim>\<open>new PublicKey(undefined)\<close> throws.
\<close>

definition computeProviderTip ::
  "config \<Rightarrow> world \<Rightarrow> provider \<Rightarrow> jsnum \<Rightarrow> error + (string \<times> jsnum)" where
  "computeProviderTip cfg w p userTip =
     (let list = tipAddresses cfg p;
          finalTip = js_max (js_or0 userTip) (minTip cfg p);
          i = randomIndex w (length list)
      in if i < length list \<and> validKey w (list ! i) then Inr (list ! i, finalTip)
         else Inl InvalidPublicKey)"

text \<open>The dev tip appended to a buy.\<close>

definition devTipIxs :: "config \<Rightarrow> string \<Rightarrow> string \<Rightarrow> jsnum \<Rightarrow> instruction list" where
  "devTipIxs cfg direction wallet amt =
     (if direction = SwapDirection_BUY cfg then
        (let devTipSol = js_mul (js_or0 amt) (DEV_TIP_RATE cfg) in
         if js_gt devTipSol (Fin 0)
         then [createTipInstruction (DEV_TIP_ADDRESS cfg) wallet devTipSol] else [])
      else [])"

text \<open>The provider tip appended when a provider was chosen and the user gave a tip.\<close>

definition providerTipIxs ::
  "config \<Rightarrow> world \<Rightarrow> provider option \<Rightarrow> string \<Rightarrow> jsnum \<Rightarrow> error + instruction list" where
  "providerTipIxs cfg w prov wallet tip =
     (case prov of
        None \<Rightarrow> Inr []
      | Some p \<Rightarrow>
          if js_gt (js_or0 tip) (Fin 0) then
            (case computeProviderTip cfg w p tip of
               Inl e \<Rightarrow> Inl e
             | Inr (tipAddress, finalTip) \<Rightarrow>
                 if js_gt finalTip (Fin 0)
                 then Inr [createTipInstruction tipAddress wallet finalTip] else Inr [])
          else Inr [])"

text \<open>
  \<^verbatim>\<open>trade\<close> up to the hand-off to a sender: the transaction and the provider it is routed
  to (\<open>None\<close> is the standard client). The region chosen for the provider goes to the
  sender only and is left out.
\<close>

definition trade ::
  "config \<Rightarrow> world \<Rightarrow> string \<Rightarrow> trade_params \<Rightarrow> error + (transaction \<times> provider option)" where
  "trade cfg w direction p =
     (let tip = or_default (tp_tipAmountSol p) (Fin 0) in
      case normalizeMint w (tp_mint p) of
        Inl e \<Rightarrow> Inl e
      | Inr m \<Rightarrow>
      (case normalizePoolAddress w (tp_poolAddress p) of
        Inl e \<Rightarrow> Inl e
      | Inr pool \<Rightarrow>
      (case normalizeSlippage (tp_slippage p) of
        Inl e \<Rightarrow> Inl e
      | Inr slippageFraction \<Rightarrow>
      (let prov = chooseProvider (tp_sender p) (Some tip) in
       case buildTransaction cfg w
              \<lparr>bp_market = tp_market p, bp_direction = direction, bp_wallet = tp_wallet p,
               bp_mint = m, bp_amount = tp_amount p, bp_slippage = slippageFraction,
               bp_priorityFeeSol = Some (or_default (tp_priorityFeeSol p) (Fin (1 / 10000))),
               bp_tipAmountSol = None\<rparr> of
         Inl e \<Rightarrow> Inl e
       | Inr tx \<Rightarrow>
           (case providerTipIxs cfg w prov (tp_wallet p) tip of
              Inl e \<Rightarrow> Inl e
            | Inr tipIxs \<Rightarrow>
                Inr (tx\<lparr>instructions :=
                          instructions tx @ devTipIxs cfg direction (tp_wallet p) (tp_amount p) @ tipIxs\<rparr>,
                     prov))))))"

definition buy ::
  "config \<Rightarrow> world \<Rightarrow> trade_params \<Rightarrow> error + (transaction \<times> provider option)" where
  "buy cfg w p = trade cfg w (SwapDirection_BUY cfg) p"

definition sell ::
  "config \<Rightarrow> world \<Rightarrow> trade_params \<Rightarrow> error + (transaction \<times> provider option)" where
  "sell cfg w p = trade cfg w (SwapDirection_SELL cfg) p"

section \<open>Pool listings: values, time-to-live, cache files\<close>

text \<open>
  A field of a pool record as the venue API reports it: absent (\<^verbatim>\<open>undefined\<close> or
  \<^verbatim>\<open>null\<close>), a number or a string. What \<^verbatim>\<open>parseFloat\<close> and \<^verbatim>\<open>Number\<close> read from a string
  is a parameter. A string-valued field that is absent is the empty string, which is
  falsy like \<^verbatim>\<open>undefined\<close> and equal to no mint.
\<close>

datatype jsval = JUndefined | JNumber rat | JString string

record js_builtins =
  parseFloat :: "string \<Rightarrow> jsnum"
  toNumber :: "string \<Rightarrow> jsnum"

fun js_Number :: "js_builtins \<Rightarrow> jsval \<Rightarrow> jsnum" where
  "js_Number js JUndefined = NaN"
| "js_Number js (JNumber r) = Fin r"
| "js_Number js (JString s) = toNumber js s"

text \<open>\<^verbatim>\<open>getCacheTtlMs\<close>, from \<^verbatim>\<open>Number(process.env...)\<close>; the default is five minutes.\<close>

definition getCacheTtlMs :: "jsnum \<Rightarrow> jsnum" where
  "getCacheTtlMs fromEnv =
     (if isFinite fromEnv \<and> js_gt fromEnv (Fin 0) then fromEnv else Fin (5 * 60 * 1000))"

text \<open>
  \<^verbatim>\<open>now - t < ttl\<close>. The difference is the exact one: the subtraction of doubles is exact
  for two clock readings (integers of milliseconds), for a clock reading and the
  modification time of a file of the same era, and for a clock reading and \<open>0\<close>.
\<close>

definition fresh :: "rat \<Rightarrow> rat \<Rightarrow> jsnum \<Rightarrow> bool" where
  "fresh now t ttlEnv = js_lt (Fin (now - t)) (getCacheTtlMs ttlEnv)"

text \<open>
  A cache file: its modification time and what \<^verbatim>\<open>JSON.parse\<close> reads from it, an array or
  anything else (another JSON value, or a failure of the read, which the \<^verbatim>\<open>try\<close> swallows).
\<close>

datatype 'a disk_payload = ArrayPayload "'a list" | OtherPayload

text \<open>
  The answer of a listing endpoint: \<^verbatim>\<open>fetch\<close> rejects, the status is not ok, the body is an
  array, or it is an object whose \<^verbatim>\<open>data\<close> and \<^verbatim>\<open>rows\<close> fields are arrays or absent.
\<close>

datatype 'a response =
    FetchRejected
  | NotOk nat
  | JsonArray "'a list"
  | JsonObject "'a list option" "'a list option"


section \<open>The scoring reduction shared by the resolvers\<close>

text \<open>
  \<^verbatim>\<open>subset.reduce((acc, it) => { ...; if (!acc || score > acc.score) return {..., score};
  return acc; }, null)\<close>, where \<open>keep it\<close> is what the accumulator keeps of the record.
\<close>

definition bestStep ::
  "('a \<Rightarrow> 'b) \<Rightarrow> ('a \<Rightarrow> jsnum) \<Rightarrow> ('b \<times> jsnum) option \<Rightarrow> 'a \<Rightarrow> ('b \<times> jsnum) option" where
  "bestStep keep score acc it =
     (case acc of
        None \<Rightarrow> Some (keep it, score it)
      | Some (b, s) \<Rightarrow> if js_gt (score it) s then Some (keep it, score it) else Some (b, s))"

definition reduceBest ::
  "('a \<Rightarrow> 'b) \<Rightarrow> ('a \<Rightarrow> jsnum) \<Rightarrow> 'a list \<Rightarrow> ('b \<times> jsnum) option" where
  "reduceBest keep score subset' = foldl (bestStep keep score) None subset'"

section \<open>Meteora DLMM: listing cache and pool resolution\<close>

record dlmm_item =
  address :: string
  mint_x :: string
  mint_y :: string
  reserve_x_amount :: jsval
  reserve_y_amount :: jsval
  liquidity :: jsval

text \<open>
  The static fields of \<^verbatim>\<open>MeteoraDlmmClient\<close> and the cache file, with a counter of the
  network fetches made so far.
\<close>

record dlmm_state =
  rawPairs :: "dlmm_item list"
  rawLoadedAt :: rat
  pairCache :: "(string \<times> string) list"
  cacheLoadedAt :: rat
  CACHE_FILE :: "(rat \<times> dlmm_item disk_payload) option"
  dlmm_fetches :: nat

record lb_account =
  publicKey :: string
  tokenXMint :: string
  tokenYMint :: string

text \<open>
  What one call reads from outside: the clock (one reading for the whole call), the TTL
  override, the answer of the \<open>n\<close>-th network fetch, whether the cache file can be
  written, \<^verbatim>\<open>new PublicKey\<close>, and the two SDK lookups:
  \<^verbatim>\<open>DLMM.getCustomizablePermissionlessLbPairIfExists(a, b)\<close> (a rejection, a pair or
  \<^verbatim>\<open>null\<close>) and \<^verbatim>\<open>DLMM.getLbPairs\<close> (a rejection or the registry).
\<close>

record dlmm_world =
  dw_now :: rat
  dw_ttlEnv :: jsnum
  dw_network :: "nat \<Rightarrow> dlmm_item response"
  dw_diskWritable :: bool
  dw_validKey :: "string \<Rightarrow> bool"
  dw_helper :: "string \<Rightarrow> string \<Rightarrow> string + string option"
  dw_getLbPairs :: "string + lb_account list"

definition normalizeKey :: "string \<Rightarrow> string \<Rightarrow> string" where
  "normalizeKey a b = a @ '':'' @ b"

definition dlmm_diskRead :: "dlmm_world \<Rightarrow> dlmm_state \<Rightarrow> dlmm_item list option" where
  "dlmm_diskRead w st =
     (case CACHE_FILE st of
        Some (mtimeMs, ArrayPayload data) \<Rightarrow>
          if fresh (dw_now w) mtimeMs (dw_ttlEnv w) then Some data else None
      | _ \<Rightarrow> None)"

definition dlmm_store :: "dlmm_world \<Rightarrow> dlmm_state \<Rightarrow> dlmm_item list \<Rightarrow> dlmm_state" where
  "dlmm_store w st items =
     st\<lparr>rawPairs := items, rawLoadedAt := dw_now w,
        CACHE_FILE := (if dw_diskWritable w then Some (dw_now w, ArrayPayload items)
                       else CACHE_FILE st)\<rparr>"

definition dlmm_networkFetch ::
  "dlmm_world \<Rightarrow> dlmm_state \<Rightarrow> (error + dlmm_item list) \<times> dlmm_state" where
  "dlmm_networkFetch w st =
     (let st1 = st\<lparr>dlmm_fetches := Suc (dlmm_fetches st)\<rparr> in
      case dw_network w (dlmm_fetches st) of
        FetchRejected \<Rightarrow> (Inl TransportError, st1)
      | NotOk status \<Rightarrow> (Inl (ApiStatus status), st1)
      | JsonArray items \<Rightarrow> (Inr items, dlmm_store w st1 items)
      | JsonObject d r \<Rightarrow>
          (let items = (case d of Some xs \<Rightarrow> xs
                        | None \<Rightarrow> (case r of Some ys \<Rightarrow> ys | None \<Rightarrow> []))
           in (Inr items, dlmm_store w st1 items)))"

definition ensureRawPairs ::
  "dlmm_world \<Rightarrow> dlmm_state \<Rightarrow> (error + dlmm_item list) \<times> dlmm_state" where
  "ensureRawPairs w st =
     (if fresh (dw_now w) (rawLoadedAt st) (dw_ttlEnv w) \<and> rawPairs st \<noteq> []
      then (Inr (rawPairs st), st)
      else case dlmm_diskRead w st of
             Some data \<Rightarrow> (Inr data, st\<lparr>rawPairs := data, rawLoadedAt := dw_now w\<rparr>)
           | None \<Rightarrow> dlmm_networkFetch w st)"

text \<open>The body of the loop of \<^verbatim>\<open>loadPairsFromApiIfNeeded\<close>.\<close>

definition cachePair :: "string \<Rightarrow> (string \<times> string) list \<Rightarrow> dlmm_item \<Rightarrow> (string \<times> string) list" where
  "cachePair wsol cache it =
     (let mx = mint_x it; my = mint_y it in
      if mx = [] \<or> my = [] then cache
      else if mx \<noteq> wsol \<and> my \<noteq> wsol then cache
      else let other = (if mx = wsol then my else mx) in
           if other = [] \<or> address it = [] then cache
           else AList.update (normalizeKey wsol other) (address it)
                  (AList.update (normalizeKey other wsol) (address it) cache))"

definition loadPairsFromApiIfNeeded :: "dlmm_world \<Rightarrow> string \<Rightarrow> dlmm_state \<Rightarrow> dlmm_state" where
  "loadPairsFromApiIfNeeded w wsol st =
     (if fresh (dw_now w) (cacheLoadedAt st) (dw_ttlEnv w) \<and> pairCache st \<noteq> [] then st
      else case ensureRawPairs w st of
             (Inl e, st1) \<Rightarrow> st1
           | (Inr items, st1) \<Rightarrow>
               st1\<lparr>pairCache := foldl (cachePair wsol) (pairCache st1) items,
                   cacheLoadedAt := dw_now w\<rparr>)"

definition dlmm_tokenReserve :: "js_builtins \<Rightarrow> string \<Rightarrow> dlmm_item \<Rightarrow> jsnum" where
  "dlmm_tokenReserve js token it =
     (let tokenIsX = (mint_x it = token) in
      js_or0 (js_Number js (if tokenIsX then reserve_x_amount it else reserve_y_amount it)))"

definition dlmm_totalLiq :: "js_builtins \<Rightarrow> dlmm_item \<Rightarrow> jsnum" where
  "dlmm_totalLiq js it =
     (case liquidity it of
        JString s \<Rightarrow> parseFloat js s
      | v \<Rightarrow> js_or0 (js_Number js v))"

definition dlmm_score :: "js_builtins \<Rightarrow> string \<Rightarrow> dlmm_item \<Rightarrow> jsnum" where
  "dlmm_score js token it =
     (let tokenReserve = dlmm_tokenReserve js token it;
          totalLiq = dlmm_totalLiq js it
      in if js_gt tokenReserve (Fin 0) then tokenReserve else totalLiq)"

definition dlmm_subset :: "string \<Rightarrow> string \<Rightarrow> dlmm_item list \<Rightarrow> dlmm_item list" where
  "dlmm_subset token wsol items =
     filter (\<lambda>it. (mint_x it = token \<and> mint_y it = wsol) \<or>
                  (mint_y it = token \<and> mint_x it = wsol)) items"

text \<open>The strategies of \<^verbatim>\<open>findMintWsolPair\<close>, each the address it finds, if any.\<close>

definition dlmm_snapshotMatch ::
  "js_builtins \<Rightarrow> string \<Rightarrow> string \<Rightarrow> dlmm_item list \<Rightarrow> string option" where
  "dlmm_snapshotMatch js token wsol items =
     (let subset' = dlmm_subset token wsol items in
      if subset' \<noteq> [] then
        (case reduceBest address (dlmm_score js token) subset' of
           Some (a, s) \<Rightarrow> if a \<noteq> [] then Some a else None
         | None \<Rightarrow> None)
      else None)"

definition dlmm_cacheMatch :: "dlmm_state \<Rightarrow> string \<Rightarrow> string option" where
  "dlmm_cacheMatch st key =
     (case map_of (pairCache st) key of
        Some cached \<Rightarrow> if cached \<noteq> [] then Some cached else None
      | None \<Rightarrow> None)"

definition dlmm_scanMatch :: "string \<Rightarrow> string \<Rightarrow> lb_account list \<Rightarrow> string option" where
  "dlmm_scanMatch token wsol all =
     map_option publicKey
       (find (\<lambda>acc. tokenXMint acc \<noteq> [] \<and> tokenYMint acc \<noteq> [] \<and>
                    ((tokenXMint acc = token \<and> tokenYMint acc = wsol) \<or>
                     (tokenYMint acc = token \<and> tokenXMint acc = wsol))) all)"

datatype strategy = SnapshotFilter | PairCacheLookup | SdkHelper | SdkHelperSwapped | RegistryScan

definition toPublicKey :: "dlmm_world \<Rightarrow> string \<Rightarrow> error + string" where
  "toPublicKey w a = (if dw_validKey w a then Inr a else Inl InvalidPublicKey)"

text \<open>
  \<^verbatim>\<open>findMintWsolPair\<close>: the outcome, the state it leaves, and the strategies it went
  through, in the order in which it did.
\<close>

definition findMintWsolPair ::
  "dlmm_world \<Rightarrow> js_builtins \<Rightarrow> string \<Rightarrow> dlmm_state \<Rightarrow> string \<Rightarrow>
   (error + string) \<times> dlmm_state \<times> strategy list" where
  "findMintWsolPair w js wsol st token =
     (case ensureRawPairs w st of
        (Inl e, st1) \<Rightarrow> (Inl e, st1, [])
      | (Inr items, st1) \<Rightarrow>
      (case dlmm_snapshotMatch js token wsol items of
        Some a \<Rightarrow> (toPublicKey w a, st1, [SnapshotFilter])
      | None \<Rightarrow>
      (let st2 = loadPairsFromApiIfNeeded w wsol st1 in
       case dlmm_cacheMatch st2 (normalizeKey token wsol) of
        Some cached \<Rightarrow> (toPublicKey w cached, st2, [SnapshotFilter, PairCacheLookup])
      | None \<Rightarrow>
      (case dw_helper w token wsol of
        Inl msg \<Rightarrow> (Inl (SdkRejected msg), st2, [SnapshotFilter, PairCacheLookup, SdkHelper])
      | Inr (Some pair) \<Rightarrow> (Inr pair, st2, [SnapshotFilter, PairCacheLookup, SdkHelper])
      | Inr None \<Rightarrow>
      (case dw_helper w wsol token of
        Inl msg \<Rightarrow>
          (Inl (SdkRejected msg), st2,
           [SnapshotFilter, PairCacheLookup, SdkHelper, SdkHelperSwapped])
      | Inr (Some pair) \<Rightarrow>
          (Inr pair, st2, [SnapshotFilter, PairCacheLookup, SdkHelper, SdkHelperSwapped])
      | Inr None \<Rightarrow>
          (case (case dw_getLbPairs w of
                   Inl msg \<Rightarrow> None
                 | Inr all \<Rightarrow> dlmm_scanMatch token wsol all) of
             Some pk \<Rightarrow>
               (Inr pk, st2,
                [SnapshotFilter, PairCacheLookup, SdkHelper, SdkHelperSwapped, RegistryScan])
           | None \<Rightarrow>
               (Inl PoolNotFound, st2,
                [SnapshotFilter, PairCacheLookup, SdkHelper, SdkHelperSwapped,
                 RegistryScan])))))))"

text \<open>The order in which \<^verbatim>\<open>findMintWsolPair\<close> is written.\<close>

definition strategy_order :: "strategy list" where
  "strategy_order =
     [SnapshotFilter, PairCacheLookup, SdkHelper, SdkHelperSwapped, RegistryScan]"

text \<open>
  What a strategy finds for a request, on the listing and in the state in which
  \<^verbatim>\<open>findMintWsolPair\<close> consults it; a lookup that is rejected finds nothing.
\<close>

definition dlmm_outcome ::
  "dlmm_world \<Rightarrow> js_builtins \<Rightarrow> string \<Rightarrow> dlmm_state \<Rightarrow> string \<Rightarrow> strategy \<Rightarrow>
   string option" where
  "dlmm_outcome w js wsol st token s =
     (case ensureRawPairs w st of
        (Inl e, st1) \<Rightarrow> None
      | (Inr items, st1) \<Rightarrow>
          (case s of
             SnapshotFilter \<Rightarrow> dlmm_snapshotMatch js token wsol items
           | PairCacheLookup \<Rightarrow>
               dlmm_cacheMatch (loadPairsFromApiIfNeeded w wsol st1) (normalizeKey token wsol)
           | SdkHelper \<Rightarrow> (case dw_helper w token wsol of Inl msg \<Rightarrow> None | Inr p \<Rightarrow> p)
           | SdkHelperSwapped \<Rightarrow>
               (case dw_helper w wsol token of Inl msg \<Rightarrow> None | Inr p \<Rightarrow> p)
           | RegistryScan \<Rightarrow>
               (case dw_getLbPairs w of
                  Inl msg \<Rightarrow> None
                | Inr all \<Rightarrow> dlmm_scanMatch token wsol all)))"

section \<open>Meteora DAMM v2: listing cache and pool choice\<close>

record DammV2Pool =
  pool_address :: string
  token_a_mint :: string
  token_b_mint :: string
  token_a_amount :: jsval
  token_b_amount :: jsval
  pool_liquidity :: jsval
  tvl :: jsval

text \<open>
  The static \<^verbatim>\<open>pairCache\<close> (pair key to data and \<^verbatim>\<open>loadedAt\<close>), the cache files by
  pair key, and a counter of the network fetches made so far.
\<close>

record v2_state =
  v2_pairCache :: "(string \<times> (DammV2Pool list \<times> rat)) list"
  v2_files :: "(string \<times> (rat \<times> DammV2Pool disk_payload)) list"
  v2_fetches :: nat

text \<open>\<open>vw_query a b\<close> is the answer to the query for \<^verbatim>\<open>token_a_mint = a, token_b_mint = b\<close>.\<close>

record v2_world =
  vw_now :: rat
  vw_ttlEnv :: jsnum
  vw_query :: "string \<Rightarrow> string \<Rightarrow> DammV2Pool response"
  vw_diskWritable :: bool

text \<open>
  \<^verbatim>\<open>[a, b].sort()\<close> orders two strings by their code units; \<^verbatim>\<open>getPairCacheKey\<close> is the same
  function in the DAMM v1 and the DAMM v2 client.
\<close>

definition getPairCacheKey :: "string \<Rightarrow> string \<Rightarrow> string" where
  "getPairCacheKey a b = (let xs = sort [a, b] in (xs ! 0) @ ''-'' @ (xs ! 1))"

definition queryPools :: "DammV2Pool response \<Rightarrow> error + DammV2Pool list" where
  "queryPools r =
     (case r of
        FetchRejected \<Rightarrow> Inl TransportError
      | NotOk status \<Rightarrow> Inl (ApiStatus status)
      | JsonArray items \<Rightarrow> Inr items
      | JsonObject d rows \<Rightarrow> Inr (case d of Some xs \<Rightarrow> xs | None \<Rightarrow> []))"

text \<open>Deduplication through a \<^verbatim>\<open>Map\<close> keyed by pool address: a later record replaces an
  earlier one of the same address, at the earlier one's place.\<close>

definition dedupByAddress :: "DammV2Pool list \<Rightarrow> DammV2Pool list" where
  "dedupByAddress xs =
     map snd (foldl (\<lambda>m it. if pool_address it \<noteq> [] then AList.update (pool_address it) it m
                              else m) [] xs)"

definition v2_diskRead :: "v2_world \<Rightarrow> v2_state \<Rightarrow> string \<Rightarrow> DammV2Pool list option" where
  "v2_diskRead w st pairKey =
     (case map_of (v2_files st) pairKey of
        Some (mtimeMs, ArrayPayload data) \<Rightarrow>
          if fresh (vw_now w) mtimeMs (vw_ttlEnv w) then Some data else None
      | _ \<Rightarrow> None)"

definition v2_networkFetch ::
  "v2_world \<Rightarrow> v2_state \<Rightarrow> string \<Rightarrow> string \<Rightarrow> (error + DammV2Pool list) \<times> v2_state" where
  "v2_networkFetch w st tokenMint otherMint =
     (let pairKey = getPairCacheKey tokenMint otherMint;
          st1 = st\<lparr>v2_fetches := Suc (v2_fetches st)\<rparr> in
      case queryPools (vw_query w tokenMint otherMint) of
        Inl e \<Rightarrow> (Inl e, st1)
      | Inr aThenB \<Rightarrow>
          (case queryPools (vw_query w otherMint tokenMint) of
             Inl e \<Rightarrow> (Inl e, st1)
           | Inr bThenA \<Rightarrow>
               (let items = dedupByAddress (aThenB @ bThenA) in
                (Inr items,
                 st1\<lparr>v2_pairCache := AList.update pairKey (items, vw_now w) (v2_pairCache st1),
                     v2_files := (if vw_diskWritable w
                                  then AList.update pairKey (vw_now w, ArrayPayload items)
                                         (v2_files st1)
                                  else v2_files st1)\<rparr>))))"

definition memHit :: "v2_world \<Rightarrow> v2_state \<Rightarrow> string \<Rightarrow> DammV2Pool list option" where
  "memHit w st pairKey =
     (case map_of (v2_pairCache st) pairKey of
        Some (data, loadedAt) \<Rightarrow>
          if fresh (vw_now w) loadedAt (vw_ttlEnv w) then Some data else None
      | None \<Rightarrow> None)"

definition fetchPoolsForTokenPair ::
  "v2_world \<Rightarrow> v2_state \<Rightarrow> string \<Rightarrow> string \<Rightarrow> (error + DammV2Pool list) \<times> v2_state" where
  "fetchPoolsForTokenPair w st tokenMint otherMint =
     (let pairKey = getPairCacheKey tokenMint otherMint in
      case memHit w st pairKey of
        Some data \<Rightarrow> (Inr data, st)
      | None \<Rightarrow>
          (case v2_diskRead w st pairKey of
             Some data \<Rightarrow>
               (Inr data,
                st\<lparr>v2_pairCache := AList.update pairKey (data, vw_now w) (v2_pairCache st)\<rparr>)
           | None \<Rightarrow> v2_networkFetch w st tokenMint otherMint))"

fun v2_num :: "js_builtins \<Rightarrow> jsval \<Rightarrow> jsnum" where
  "v2_num js (JString s) = parseFloat js s"
| "v2_num js (JNumber r) = Fin r"
| "v2_num js JUndefined = Fin 0"

definition v2_tokenReserve :: "js_builtins \<Rightarrow> string \<Rightarrow> DammV2Pool \<Rightarrow> jsnum" where
  "v2_tokenReserve js targetMint it =
     (let tokenIsA = (token_a_mint it = targetMint);
          tokenReserveRaw = (if tokenIsA then token_a_amount it else token_b_amount it)
      in v2_num js tokenReserveRaw)"

definition v2_tvl :: "js_builtins \<Rightarrow> DammV2Pool \<Rightarrow> jsnum" where
  "v2_tvl js it =
     (let tvlRaw = (case tvl it of JUndefined \<Rightarrow> pool_liquidity it | v \<Rightarrow> v)
      in v2_num js tvlRaw)"

definition v2_score :: "js_builtins \<Rightarrow> string \<Rightarrow> DammV2Pool \<Rightarrow> jsnum" where
  "v2_score js targetMint it =
     (let tokenReserve = v2_tokenReserve js targetMint it;
          tvlNum = v2_tvl js it
      in if js_gt tokenReserve (Fin 0) then tokenReserve else tvlNum)"

definition v2_subset :: "string \<Rightarrow> string \<Rightarrow> DammV2Pool list \<Rightarrow> DammV2Pool list" where
  "v2_subset targetMint wsolMint items =
     filter (\<lambda>it. token_a_mint it \<noteq> [] \<and> token_b_mint it \<noteq> [] \<and>
                  ((token_a_mint it = targetMint \<and> token_b_mint it = wsolMint) \<or>
                   (token_b_mint it = targetMint \<and> token_a_mint it = wsolMint))) items"

definition chooseBestPool ::
  "js_builtins \<Rightarrow> DammV2Pool list \<Rightarrow> string \<Rightarrow> string \<Rightarrow> DammV2Pool option" where
  "chooseBestPool js items targetMint wsolMint =
     (let subset' = v2_subset targetMint wsolMint items in
      if subset' = [] then None
      else map_option fst (reduceBest id (v2_score js targetMint) subset'))"



section \<open>Meteora DAMM v1: pool choice\<close>

record DammV1Pool =
  v1_pool_address :: string
  pool_token_mints :: "string list option"
  pool_token_usd_amounts :: "jsval list option"
  pool_tvl :: jsval

text \<open>\<^verbatim>\<open>parseFloat(v ?? '0') || 0\<close>; \<^verbatim>\<open>parseFloat\<close> of a number reads the number back.\<close>

fun v1_num :: "js_builtins \<Rightarrow> jsval \<Rightarrow> jsnum" where
  "v1_num js JUndefined = js_or0 (parseFloat js ''0'')"
| "v1_num js (JNumber r) = js_or0 (Fin r)"
| "v1_num js (JString s) = js_or0 (parseFloat js s)"

definition v1_score :: "js_builtins \<Rightarrow> string \<Rightarrow> DammV1Pool \<Rightarrow> jsnum" where
  "v1_score js token it =
     (let mints = (case pool_token_mints it of Some ms \<Rightarrow> ms | None \<Rightarrow> []);
          idx = (case mints of m0 # rest \<Rightarrow> (if m0 = token then 0 else 1) | [] \<Rightarrow> (1::nat));
          amounts = (case pool_token_usd_amounts it of Some xs \<Rightarrow> xs | None \<Rightarrow> []);
          tokenUsd = v1_num js (if idx < length amounts then amounts ! idx else JUndefined);
          tvlNum = v1_num js (pool_tvl it)
      in if js_gt tokenUsd (Fin 0) then tokenUsd else tvlNum)"

definition v1_subset :: "string \<Rightarrow> string \<Rightarrow> DammV1Pool list \<Rightarrow> DammV1Pool list" where
  "v1_subset token wsol items =
     filter (\<lambda>it. case pool_token_mints it of
                    Some [m0, m1] \<Rightarrow> (m0 = token \<and> m1 = wsol) \<or> (m1 = token \<and> m0 = wsol)
                  | _ \<Rightarrow> False) items"

text \<open>
  \<^verbatim>\<open>findPoolAddressForMint\<close> of the DAMM v1 client, from the outcome of its
  \<^verbatim>\<open>fetchPoolsForTokenPair\<close> (whose caching is that of the DAMM v2 client, with one query).
\<close>

definition v1_findPoolAddressForMint ::
  "(string \<Rightarrow> bool) \<Rightarrow> js_builtins \<Rightarrow> (error + DammV1Pool list) \<Rightarrow> string \<Rightarrow> string \<Rightarrow>
   error + string" where
  "v1_findPoolAddressForMint valid js fetched token wsol =
     (case fetched of
        Inl e \<Rightarrow> Inl e
      | Inr items \<Rightarrow>
          (let subset' = v1_subset token wsol items in
           if subset' = [] then Inl PoolNotFound
           else case reduceBest v1_pool_address (v1_score js token) subset' of
                  Some (a, s) \<Rightarrow>
                    if a = [] then Inl PoolAddressNotFound
                    else if valid a then Inr a else Inl InvalidPublicKey
                | None \<Rightarrow> Inl PoolAddressNotFound))"

text \<open>\<^verbatim>\<open>findPoolAddressForMint\<close> of the DAMM v2 client.\<close>

definition v2_findPoolAddressForMint ::
  "(string \<Rightarrow> bool) \<Rightarrow> js_builtins \<Rightarrow> v2_world \<Rightarrow> v2_state \<Rightarrow> string \<Rightarrow> string \<Rightarrow>
   (error + string) \<times> v2_state" where
  "v2_findPoolAddressForMint valid js w st token wsol =
     (case fetchPoolsForTokenPair w st token wsol of
        (Inl e, st1) \<Rightarrow> (Inl e, st1)
      | (Inr items, st1) \<Rightarrow>
          (case chooseBestPool js items token wsol of
             None \<Rightarrow> (Inl PoolNotFound, st1)
           | Some best \<Rightarrow>
               if pool_address best = [] then (Inl PoolNotFound, st1)
               else if valid (pool_address best) then (Inr (pool_address best), st1)
               else (Inl InvalidPublicKey, st1)))"

section \<open>Concrete constants, collaborators and requests\<close>

text \<open>
  A configuration, a world and requests on which the theorems below are instantiated. The
  minimum tips are those of the comments in \<^verbatim>\<open>chooseProvider\<close>; \<open>DEV_TIP_RATE\<close> is the
  double nearest to \<open>0.001\<close>; the other values are placeholders.
\<close>

fun market_name :: "market \<Rightarrow> string" where
  "market_name PUMP_FUN = ''PUMP_FUN''"
| "market_name PUMP_SWAP = ''PUMP_SWAP''"
| "market_name RAYDIUM_AMM = ''RAYDIUM_AMM''"
| "market_name RAYDIUM_CLMM = ''RAYDIUM_CLMM''"
| "market_name RAYDIUM_CPMM = ''RAYDIUM_CPMM''"
| "market_name RAYDIUM_LAUNCHPAD = ''RAYDIUM_LAUNCHPAD''"
| "market_name METEORA_DLMM = ''METEORA_DLMM''"
| "market_name METEORA_DAMM_V1 = ''METEORA_DAMM_V1''"
| "market_name METEORA_DAMM_V2 = ''METEORA_DAMM_V2''"
| "market_name METEORA_DBC = ''METEORA_DBC''"
| "market_name ORCA_WHIRLPOOL = ''ORCA_WHIRLPOOL''"
| "market_name MOONIT = ''MOONIT''"
| "market_name HEAVEN = ''HEAVEN''"
| "market_name SUGAR = ''SUGAR''"
| "market_name BOOP_FUN = ''BOOP_FUN''"

definition example_config :: config where
  "example_config =
     \<lparr>Markets = market_name, SwapDirection_BUY = ''buy'', SwapDirection_SELL = ''sell'',
      DEV_TIP_ADDRESS = ''DevTip'', DEV_TIP_RATE = Fin (1152921504606847 / 1152921504606846976),
      NOZOMI_TIP_ADDRESSES = [''NozomiTip1'', ''NozomiTip2''],
      ASTRALANE_TIP_ADDRESSES = [''AstralaneTip1''],
      JITO_TIP_ADDRESSES = [''JitoTip1''],
      NOZOMI_MIN_TIP_SOL = Fin (1 / 1000),
      ASTRALANE_MIN_TIP_SOL = Fin (1 / 100000),
      JITO_MIN_TIP_SOL = Fin (1 / 1000)\<rparr>"

definition example_world :: world where
  "example_world =
     \<lparr>validKey = (\<lambda>s. s \<noteq> []), randomIndex = (\<lambda>n. 0),
      computeBudgetIxs = (\<lambda>fee. [ComputeBudgetIx ''setComputeUnitPrice'']),
      TIP_ADDRESS_env = None,
      venueSdk = (\<lambda>m s a. Inr [ProgramIx ''venue'' ''swap'']),
      raydiumClmmSwap = (\<lambda>c s a. Inr [ProgramIx ''CLMM'' ''swap''])\<rparr>"

definition example_build :: "jsnum \<Rightarrow> build_params" where
  "example_build s =
     \<lparr>bp_market = ''METEORA_DLMM'', bp_direction = ''buy'', bp_wallet = ''Wallet'',
      bp_mint = ''MintM'', bp_amount = Fin (3 / 2), bp_slippage = s,
      bp_priorityFeeSol = None, bp_tipAmountSol = None\<rparr>"

definition example_request :: "jsnum \<Rightarrow> jsnum \<Rightarrow> trade_params" where
  "example_request slip tip =
     \<lparr>tp_market = ''METEORA_DLMM'', tp_wallet = ''Wallet'', tp_mint = KeyString ''MintM'',
      tp_amount = Fin (3 / 2), tp_slippage = slip, tp_priorityFeeSol = None,
      tp_tipAmountSol = Some tip, tp_poolAddress = None, tp_sender = None\<rparr>"


text \<open>The buy of the least positive amount.\<close>

definition underflow_request :: trade_params where
  "underflow_request = (example_request (Fin (1 / 100)) (Fin 0))\<lparr>tp_amount := Fin MIN_VALUE\<rparr>"


text \<open>Builtins that read the decimal strings used below, and pool records for one pair.\<close>

definition example_js :: js_builtins where
  "example_js =
     \<lparr>parseFloat = (\<lambda>s. if s = ''1000'' then Fin 1000 else NaN),
      toNumber = (\<lambda>s. if s = ''1000'' then Fin 1000 else NaN)\<rparr>"

definition v2_pool :: "string \<Rightarrow> rat \<Rightarrow> rat \<Rightarrow> DammV2Pool" where
  "v2_pool a reserve tvlUsd =
     \<lparr>pool_address = a, token_a_mint = ''MintM'', token_b_mint = ''WSOL'',
      token_a_amount = JNumber reserve, token_b_amount = JNumber 7,
      pool_liquidity = JUndefined, tvl = JNumber tvlUsd\<rparr>"

definition dlmm_pool :: "string \<Rightarrow> rat \<Rightarrow> rat \<Rightarrow> dlmm_item" where
  "dlmm_pool a reserve liq =
     \<lparr>address = a, mint_x = ''MintM'', mint_y = ''WSOL'',
      reserve_x_amount = JNumber reserve, reserve_y_amount = JNumber 7,
      liquidity = JNumber liq\<rparr>"

definition v1_pool :: "string \<Rightarrow> rat \<Rightarrow> DammV1Pool" where
  "v1_pool a usd =
     \<lparr>v1_pool_address = a, pool_token_mints = Some [''MintM'', ''WSOL''],
      pool_token_usd_amounts = Some [JNumber usd, JNumber 7], pool_tvl = JNumber 10\<rparr>"

definition example_v2_items :: "DammV2Pool list" where
  "example_v2_items = [v2_pool ''PoolA'' 3 1000, v2_pool ''PoolB'' 5 1, v2_pool ''PoolC'' 5 7]"

definition example_dlmm_items :: "dlmm_item list" where
  "example_dlmm_items = [dlmm_pool ''PairA'' 0 9, dlmm_pool ''PairB'' 0 9, dlmm_pool ''PairC'' 0 4]"

text \<open>
  The static fields as the classes initialise them, with no cache file, and worlds that
  differ in the clock, the answer of the listing endpoint and whether the cache file can
  be written. The TTL is the default.
\<close>

definition dlmm_initial :: dlmm_state where
  "dlmm_initial =
     \<lparr>rawPairs = [], rawLoadedAt = 0, pairCache = [], cacheLoadedAt = 0, CACHE_FILE = None,
      dlmm_fetches = 0\<rparr>"

definition dlmm_world_at :: "rat \<Rightarrow> dlmm_item response \<Rightarrow> bool \<Rightarrow> dlmm_world" where
  "dlmm_world_at t r writable =
     \<lparr>dw_now = t, dw_ttlEnv = NaN, dw_network = (\<lambda>n. r), dw_diskWritable = writable,
      dw_validKey = (\<lambda>s. s \<noteq> []), dw_helper = (\<lambda>a b. Inr None), dw_getLbPairs = Inr []\<rparr>"

definition v2_initial :: v2_state where
  "v2_initial = \<lparr>v2_pairCache = [], v2_files = [], v2_fetches = 0\<rparr>"

definition v2_world_at :: "rat \<Rightarrow> DammV2Pool response \<Rightarrow> bool \<Rightarrow> v2_world" where
  "v2_world_at t r writable =
     \<lparr>vw_now = t, vw_ttlEnv = NaN, vw_query = (\<lambda>a b. r), vw_diskWritable = writable\<rparr>"

text \<open>A state after a restart: nothing in memory, a cache file written at time \<open>t\<close>.\<close>

definition v2_restarted :: "rat \<Rightarrow> v2_state" where
  "v2_restarted t =
     \<lparr>v2_pairCache = [],
      v2_files = [(''MintM-WSOL'', (t, ArrayPayload [v2_pool ''PoolA'' 3 1000]))],
      v2_fetches = 0\<rparr>"






text \<open>Worlds in which one SDK lookup finds a pair, and in which nothing is found.\<close>

definition helper_world :: dlmm_world where
  "helper_world =
     (dlmm_world_at 1700000000000 (JsonArray []) False)
       \<lparr>dw_helper := (\<lambda>a b. if a = ''WSOL'' then Inr (Some ''PairH'') else Inr None)\<rparr>"

definition exhausted_world :: dlmm_world where
  "exhausted_world = dlmm_world_at 1700000000000 (JsonArray []) False"



section \<open>Properties of rounding to a double\<close>

lemma bitLength_nonpos: "x \<le> 0 \<Longrightarrow> bitLength x = 0"
  by (simp add: bitLength.simps)

lemma bitLength_pos: "0 < x \<Longrightarrow> bitLength x = 1 + bitLength (x div 2)"
  by (subst bitLength.simps) simp

lemma bitLength_ge0: "0 \<le> bitLength x"
  by (induction x rule: bitLength.induct) (subst bitLength.simps, simp)

lemma bitLength_upper: "0 \<le> x \<Longrightarrow> x < 2 ^ nat (bitLength x)"
proof (induction x rule: bitLength.induct)
  case (1 x)
  show ?case
  proof (cases "x \<le> 0")
    case True
    with "1.prems" show ?thesis by (simp add: bitLength_nonpos)
  next
    case False
    then have p: "0 < x" by simp
    from "1.IH"[OF False] p have ih: "x div 2 < 2 ^ nat (bitLength (x div 2))" by simp
    have "nat (1 + bitLength (x div 2)) = Suc (nat (bitLength (x div 2)))"
      using bitLength_ge0[of "x div 2"] by simp
    with ih p show ?thesis by (simp add: bitLength_pos)
  qed
qed

lemma bitLength_lower: "0 < x \<Longrightarrow> 1 \<le> bitLength x \<and> 2 ^ nat (bitLength x - 1) \<le> x"
proof (induction x rule: bitLength.induct)
  case (1 x)
  then have p: "0 < x" by simp
  show ?case
  proof (cases "x div 2 \<le> 0")
    case True
    with p have "x = 1" by simp
    then show ?thesis by (simp add: bitLength_pos bitLength_nonpos)
  next
    case False
    then have q: "0 < x div 2" by simp
    from p have "\<not> x \<le> 0" by simp
    from "1.IH"[OF this q]
    have ih: "1 \<le> bitLength (x div 2)" "2 ^ nat (bitLength (x div 2) - 1) \<le> x div 2" by auto
    have "nat (bitLength (x div 2)) = Suc (nat (bitLength (x div 2) - 1))"
      using ih(1) by simp
    moreover have "2 * (x div 2) \<le> x" by simp
    ultimately show ?thesis using ih p by (simp add: bitLength_pos)
  qed
qed

lemma bitLength_eval:
  "bitLength 0 = 0" "bitLength 1 = 1"
  "bitLength (numeral (Num.Bit0 n)) = 1 + bitLength (numeral n)"
  "bitLength (numeral (Num.Bit1 n)) = 1 + bitLength (numeral n)"
  "bitLength (- numeral n) = 0"
  by (simp_all add: bitLength_pos bitLength_nonpos)

lemma ilog2_lower: "0 < a \<Longrightarrow> 2 powi (ilog2 a) \<le> a"
proof (cases "1 \<le> a")
  case True
  then have f: "0 < \<lfloor>a\<rfloor>" by simp
  from bitLength_lower[OF f]
  have b: "1 \<le> bitLength \<lfloor>a\<rfloor>" "2 ^ nat (bitLength \<lfloor>a\<rfloor> - 1) \<le> \<lfloor>a\<rfloor>" by auto
  have "(2::rat) powi (bitLength \<lfloor>a\<rfloor> - 1) = 2 ^ nat (bitLength \<lfloor>a\<rfloor> - 1)"
    using b(1) by (simp add: power_int_def)
  also have "\<dots> = of_int (2 ^ nat (bitLength \<lfloor>a\<rfloor> - 1))" by simp
  also have "\<dots> \<le> of_int \<lfloor>a\<rfloor>" using b(2) by (simp only: of_int_le_iff)
  also have "\<dots> \<le> a" by simp
  finally show ?thesis using True by (simp add: ilog2_def)
next
  case False
  assume p: "0 < a"
  let ?n = "\<lceil>1 / a\<rceil> - 1"
  let ?j = "bitLength ?n"
  from False p have "1 < 1 / a" by simp
  with p have n0: "0 \<le> ?n" by simp
  from bitLength_upper[OF n0] have "\<lceil>1 / a\<rceil> \<le> 2 ^ nat ?j" by simp
  then have "of_int \<lceil>1 / a\<rceil> \<le> (of_int (2 ^ nat ?j) :: rat)" by (simp only: of_int_le_iff)
  also have "(of_int (2 ^ nat ?j) :: rat) = 2 ^ nat ?j" by simp
  finally have "of_int \<lceil>1 / a\<rceil> \<le> (2::rat) ^ nat ?j" .
  with le_of_int_ceiling[of "1 / a"] have "1 / a \<le> 2 ^ nat ?j" by (rule order_trans)
  then have "1 / 2 ^ nat ?j \<le> a" using p by (simp add: field_simps)
  moreover have "(2::rat) powi (- ?j) = 1 / 2 ^ nat ?j"
    using bitLength_ge0[of ?n] by (simp add: power_int_minus field_simps power_int_def)
  ultimately show ?thesis using False by (simp add: ilog2_def)
qed

lemma ilog2_upper: "0 < a \<Longrightarrow> a < 2 powi (ilog2 a + 1)"
proof (cases "1 \<le> a")
  case True
  then have f: "0 \<le> \<lfloor>a\<rfloor>" by simp
  from bitLength_upper[OF f] have "\<lfloor>a\<rfloor> + 1 \<le> 2 ^ nat (bitLength \<lfloor>a\<rfloor>)" by simp
  then have "of_int (\<lfloor>a\<rfloor> + 1) \<le> (of_int (2 ^ nat (bitLength \<lfloor>a\<rfloor>)) :: rat)"
    by (simp only: of_int_le_iff)
  moreover have "a < of_int (\<lfloor>a\<rfloor> + 1)" by linarith
  ultimately have "a < 2 ^ nat (bitLength \<lfloor>a\<rfloor>)" by simp
  moreover have "(2::rat) powi (bitLength \<lfloor>a\<rfloor>) = 2 ^ nat (bitLength \<lfloor>a\<rfloor>)"
    using bitLength_ge0[of "\<lfloor>a\<rfloor>"] by (simp add: power_int_def)
  ultimately show ?thesis using True by (simp add: ilog2_def)
next
  case False
  assume p: "0 < a"
  let ?n = "\<lceil>1 / a\<rceil> - 1"
  let ?j = "bitLength ?n"
  from False p have g: "1 < 1 / a" by simp
  then have n0: "0 < ?n" by (simp add: less_ceiling_iff)
  from bitLength_lower[OF n0] have b: "1 \<le> ?j" "2 ^ nat (?j - 1) \<le> ?n" by auto
  from b(2) have "of_int (2 ^ nat (?j - 1)) \<le> (of_int ?n :: rat)" by (simp only: of_int_le_iff)
  moreover have "of_int ?n < 1 / a" by linarith
  ultimately have "2 ^ nat (?j - 1) < 1 / a" by simp
  then have "a < 1 / 2 ^ nat (?j - 1)" using p by (simp add: field_simps)
  moreover have "(2::rat) powi (- ?j + 1) = 1 / 2 ^ nat (?j - 1)"
  proof -
    have "- ?j + 1 = - (?j - 1)" by simp
    then have "(2::rat) powi (- ?j + 1) = inverse (2 powi (?j - 1))"
      by (simp only: power_int_minus)
    also have "(2::rat) powi (?j - 1) = 2 ^ nat (?j - 1)" using b(1) by (simp add: power_int_def)
    finally show ?thesis by (simp add: field_simps)
  qed
  ultimately show ?thesis using False by (simp add: ilog2_def)
qed

lemma roundTiesToEven_nonneg: "0 \<le> m \<Longrightarrow> 0 \<le> roundTiesToEven m"
  by (auto simp: roundTiesToEven_def Let_def)


lemma roundTiesToEven_pos_iff: "0 \<le> m \<Longrightarrow> 0 < roundTiesToEven m \<longleftrightarrow> 1 / 2 < m"
proof -
  assume h: "0 \<le> m"
  then have f: "0 \<le> \<lfloor>m\<rfloor>" by simp
  show ?thesis
  proof (cases "\<lfloor>m\<rfloor> = 0")
    case True
    then show ?thesis by (simp add: roundTiesToEven_def)
  next
    case False
    with f have g: "1 \<le> \<lfloor>m\<rfloor>" by linarith
    then have "of_int 1 \<le> m" by (simp only: le_floor_iff)
    then have "1 \<le> m" by simp
    with g show ?thesis by (auto simp: roundTiesToEven_def Let_def)
  qed
qed


text \<open>
  A rational rounds to a positive number exactly when it exceeds \<open>2\<^sup>-\<^sup>1\<^sup>0\<^sup>7\<^sup>5\<close>, half the least
  positive double.
\<close>

lemma power_int_half: "(2::rat) powi (j - 1) = 2 powi j / 2"
  by (simp add: power_int_diff)

lemma to_double_pos_iff: "js_lt (Fin 0) (to_double r) \<longleftrightarrow> 2 powi (- 1075) < r"
proof (cases "r \<le> 0")
  case True
  have z: "(0::rat) < 2 powi (- 1075)" by (rule zero_less_power_int) simp
  have "\<not> 2 powi (- 1075) < r"
  proof
    assume "2 powi (- 1075) < r"
    with z have "0 < r" by (rule less_trans)
    with True show False by simp
  qed
  moreover have "\<not> js_lt (Fin 0) (to_double r)"
  proof (cases "r = 0")
    case True
    then show ?thesis by (simp add: to_double_def)
  next
    case False
    with True have n: "r < 0" by simp
    have "0 \<le> roundTiesToEven (\<bar>r\<bar> / 2 powi (max (ilog2 \<bar>r\<bar>) (- 1022) - 52))"
      by (rule roundTiesToEven_nonneg) simp
    then have "0 \<le> of_int (roundTiesToEven (\<bar>r\<bar> / 2 powi (max (ilog2 \<bar>r\<bar>) (- 1022) - 52))) *
                  (2::rat) powi (max (ilog2 \<bar>r\<bar>) (- 1022) - 52)"
      by simp
    with n show ?thesis by (simp add: to_double_def Let_def)
  qed
  ultimately show ?thesis by (simp only:)
next
  case False
  then have p: "0 < r" by simp
  define k where "k = max (ilog2 r) (- 1022) - 52"
  define n where "n = roundTiesToEven (r / 2 powi k)"
  define v where "v = of_int n * (2::rat) powi k"
  have m0: "0 \<le> r / 2 powi k" using p by simp
  have res: "to_double r = (if 2 ^ 1024 \<le> v then PInf else Fin v)"
    using p by (simp add: to_double_def Let_def k_def n_def v_def)
  have "js_lt (Fin 0) (to_double r) \<longleftrightarrow> 0 < v"
  proof (cases "(2::rat) ^ 1024 \<le> v")
    case True
    have "(0::rat) < 2 ^ 1024" by simp
    from this True have "0 < v" by (rule less_le_trans)
    with True res show ?thesis by simp
  next
    case False
    with res show ?thesis by simp
  qed
  also have "0 < v \<longleftrightarrow> 0 < n"
  proof -
    have "\<not> (2::rat) powi k < 0" by (simp add: not_less)
    then show ?thesis by (simp add: v_def zero_less_mult_iff)
  qed
  also have "0 < n \<longleftrightarrow> 1 / 2 < r / 2 powi k"
    unfolding n_def using m0 by (rule roundTiesToEven_pos_iff)
  also have "1 / 2 < r / 2 powi k \<longleftrightarrow> 2 powi (k - 1) < r"
    by (simp add: power_int_half field_simps)
  also have "2 powi (k - 1) < r \<longleftrightarrow> 2 powi (- 1075) < r"
  proof (cases "ilog2 r \<le> - 1022")
    case True
    then have "k - 1 = - 1075" by (simp add: k_def)
    then show ?thesis by (simp only:)
  next
    case False
    then have ke: "k = ilog2 r - 52" by (simp add: k_def)
    have "(2::rat) powi (k - 1) < 2 powi (ilog2 r)"
      unfolding ke by (rule power_int_strict_increasing) simp_all
    also have "\<dots> \<le> r" by (rule ilog2_lower[OF p])
    finally have a: "2 powi (k - 1) < r" .
    have "(2::rat) powi (- 1075) < 2 powi (ilog2 r)"
      using False by (intro power_int_strict_increasing) simp_all
    also have "\<dots> \<le> r" by (rule ilog2_lower[OF p])
    finally have b: "2 powi (- 1075) < r" .
    from a b show ?thesis by (simp only:)
  qed
  finally show ?thesis .
qed

text \<open>Underflow: a product of at most half the least positive double is \<open>0\<close>.\<close>

lemma to_double_underflow:
  assumes "0 \<le> r" and "r \<le> 2 powi (- 1075)"
  shows "to_double r = Fin 0"
proof (cases "r = 0")
  case True
  then show ?thesis by (simp add: to_double_def)
next
  case False
  with assms have p: "0 < r" by simp
  define v where
    "v = of_int (roundTiesToEven (r / 2 powi (max (ilog2 r) (- 1022) - 52))) *
           (2::rat) powi (max (ilog2 r) (- 1022) - 52)"
  have "0 \<le> roundTiesToEven (r / 2 powi (max (ilog2 r) (- 1022) - 52))"
    using p by (intro roundTiesToEven_nonneg) simp
  then have v0: "0 \<le> v" by (simp add: v_def)
  have res: "to_double r = (if 2 ^ 1024 \<le> v then PInf else Fin v)"
    using p by (simp add: to_double_def Let_def v_def)
  from assms(2) have n: "\<not> js_lt (Fin 0) (to_double r)"
    by (simp only: to_double_pos_iff not_less)
  show ?thesis
  proof (cases "(2::rat) ^ 1024 \<le> v")
    case True
    with res n show ?thesis by simp
  next
    case False
    with res n v0 show ?thesis by simp
  qed
qed

lemma floor_rat_numeral: "\<lfloor>(numeral a :: rat) / numeral b\<rfloor> = numeral a div numeral b"
  using floor_divide_of_int_eq[of "numeral a" "numeral b", where ?'a = rat] by simp

lemma ceiling_rat_numeral: "\<lceil>(numeral a :: rat) / numeral b\<rceil> = - (- numeral a div numeral b)"
  using floor_divide_of_int_eq[of "- numeral a" "numeral b", where ?'a = rat]
  by (simp add: ceiling_def)

lemmas to_double_eval =
  to_double_def ilog2_def roundTiesToEven_def bitLength_eval floor_rat_numeral
  ceiling_rat_numeral Let_def

lemma to_double_zero: "to_double 0 = Fin 0"
  by (simp add: to_double_def)

lemma MIN_VALUE_pos: "0 < MIN_VALUE"
  unfolding MIN_VALUE_def by (rule zero_less_power_int) simp

section \<open>Properties of the router and the compiler\<close>

lemma createMarketClient_error:
  "createMarketClient cfg m = Inl e \<Longrightarrow> e = UnsupportedMarket m"
  by (auto simp: createMarketClient_def split: option.splits)

lemma createDirectionInvoker_error:
  "createDirectionInvoker cfg d = Inl e \<Longrightarrow> e = UnsupportedDirection d"
  by (auto simp: createDirectionInvoker_def split: if_splits)

lemma buildTransaction_out_of_range_iff:
  "buildTransaction cfg w p = Inl SlippageOutOfRange \<longleftrightarrow>
     js_lt (bp_slippage p) (Fin 0) \<or> js_gt (bp_slippage p) (Fin 1)"
  by (auto simp: buildTransaction_def Let_def split: sum.splits
           dest: createMarketClient_error createDirectionInvoker_error)










lemmas example_defs =
  example_config_def example_world_def example_build_def example_request_def

lemmas trade_step_defs =
  buy_def sell_def trade_def buildTransaction_def createMarketClient_def switch_order_def
  createDirectionInvoker_def builderTip_def js_gt_def normalizeSlippage_def js_max_def
  js_min_def chooseProvider_def js_or0_def js_le_def js_ge_def providerTipIxs_def
  computeProviderTip_def createTipInstruction_def stripNonEssentialInstructions_def
  to_double_eval

lemmas trade_eval_defs = trade_step_defs devTipIxs_def

lemma trade_Inr_shape:
  assumes "trade cfg w d p = Inr (tx, prov)"
  shows "\<exists>m sf client sd ixs tips.
     normalizeMint w (tp_mint p) = Inr m \<and>
     normalizeSlippage (tp_slippage p) = Inr sf \<and>
     createMarketClient cfg (tp_market p) = Inr client \<and>
     createDirectionInvoker cfg d = Inr sd \<and>
     clientInstructions w client sd
       \<lparr>mintAddress = m, walletKey = tp_wallet p, amountArg = tp_amount p,
        slippageArg = sf\<rparr> = Inr ixs \<and>
     prov = chooseProvider (tp_sender p) (Some (or_default (tp_tipAmountSol p) (Fin 0))) \<and>
     providerTipIxs cfg w prov (tp_wallet p) (or_default (tp_tipAmountSol p) (Fin 0)) = Inr tips \<and>
     tx = \<lparr>instructions =
             computeBudgetIxs w (or_default (tp_priorityFeeSol p) (Fin (1 / 10000))) @ ixs @
             devTipIxs cfg d (tp_wallet p) (tp_amount p) @ tips,
           feePayer = Some (tp_wallet p)\<rparr>"
  using assms
  by (auto simp: trade_def buildTransaction_def builderTip_def Let_def js_gt_def
           split: sum.splits if_splits)

lemma js_mul_zero_not_pos: "\<not> js_gt (js_mul (Fin 0) r) (Fin 0)"
  by (cases r) (simp_all add: js_gt_def to_double_zero)

lemma js_mul_pos_or0: "js_gt (js_mul (js_or0 a) r) (Fin 0) \<Longrightarrow> js_or0 a = a"
  using js_mul_zero_not_pos[of r] by (cases "js_or0 a = a") (auto simp: js_or0_def split: if_splits)

lemma devTipIxs_buy:
  "devTipIxs cfg (SwapDirection_BUY cfg) wl a =
     (if js_gt (js_mul (js_or0 a) (DEV_TIP_RATE cfg)) (Fin 0)
      then [createTipInstruction (DEV_TIP_ADDRESS cfg) wl (js_mul a (DEV_TIP_RATE cfg))]
      else [])"
  using js_mul_pos_or0[of a "DEV_TIP_RATE cfg"] by (auto simp: devTipIxs_def Let_def)

lemma dev_tip_positive_iff:
  "js_gt (js_mul (js_or0 (Fin a)) (Fin r)) (Fin 0) \<longleftrightarrow> 2 powi (- 1075) < a * r"
proof -
  have "js_mul (js_or0 (Fin a)) (Fin r) = to_double (a * r)"
    by (simp add: js_or0_def)
  then show ?thesis by (simp only: js_gt_def to_double_pos_iff)
qed

lemma devTipIxs_not_buy: "d \<noteq> SwapDirection_BUY cfg \<Longrightarrow> devTipIxs cfg d wl a = []"
  by (simp add: devTipIxs_def)

lemma createDirectionInvoker_buy: "createDirectionInvoker cfg (SwapDirection_BUY cfg) = Inr Buy"
  by (simp add: createDirectionInvoker_def)

subsection \<open>The dev tip of a buy\<close>

text \<open>
  Claim C9, as amended. A buy through \<open>buy\<close> that compiles holds the compute-budget
  instructions, the venue's swap instructions, then, exactly when the product
  \<open>(amount || 0) * DEV_TIP_RATE\<close> of doubles is positive, a tip instruction paying
  \<open>amount * DEV_TIP_RATE\<close> to \<open>DEV_TIP_ADDRESS\<close>, then the provider tip (if any), whatever
  \<open>tipAmountSol\<close> is. For a finite amount and rate the product of doubles is positive
  exactly when the exact product exceeds \<open>2\<^sup>-\<^sup>1\<^sup>0\<^sup>7\<^sup>5\<close>; at or below that it underflows to
  zero. A sell gets no such instruction (the two direction constants being different).
\<close>
theorem buy_appends_dev_tip:
  "(\<forall>tx prov. buy cfg w p = Inr (tx, prov) \<longrightarrow>
      (\<exists>m sf client ixs tips.
         clientInstructions w client Buy
           \<lparr>mintAddress = m, walletKey = tp_wallet p, amountArg = tp_amount p,
            slippageArg = sf\<rparr> = Inr ixs \<and>
         providerTipIxs cfg w prov (tp_wallet p) (or_default (tp_tipAmountSol p) (Fin 0))
           = Inr tips \<and>
         instructions tx =
           computeBudgetIxs w (or_default (tp_priorityFeeSol p) (Fin (1 / 10000))) @ ixs @
           (if js_gt (js_mul (js_or0 (tp_amount p)) (DEV_TIP_RATE cfg)) (Fin 0)
            then [createTipInstruction (DEV_TIP_ADDRESS cfg) (tp_wallet p)
                    (js_mul (tp_amount p) (DEV_TIP_RATE cfg))]
            else []) @ tips)) \<and>
   (js_gt (js_mul (js_or0 (Fin a)) (Fin r)) (Fin 0) \<longleftrightarrow> 2 powi (- 1075) < a * r) \<and>
   (SwapDirection_SELL cfg \<noteq> SwapDirection_BUY cfg \<longrightarrow>
      (\<forall>tx prov. sell cfg w p = Inr (tx, prov) \<longrightarrow>
         (\<exists>m sf client ixs tips.
            clientInstructions w client Sell
              \<lparr>mintAddress = m, walletKey = tp_wallet p, amountArg = tp_amount p,
               slippageArg = sf\<rparr> = Inr ixs \<and>
            providerTipIxs cfg w prov (tp_wallet p) (or_default (tp_tipAmountSol p) (Fin 0))
              = Inr tips \<and>
            instructions tx =
              computeBudgetIxs w (or_default (tp_priorityFeeSol p) (Fin (1 / 10000))) @
              ixs @ tips)))"
proof (intro conjI allI impI)
  fix tx prov
  assume "buy cfg w p = Inr (tx, prov)"
  then have "trade cfg w (SwapDirection_BUY cfg) p = Inr (tx, prov)"
    by (simp add: buy_def)
  from trade_Inr_shape[OF this] obtain m sf client sd ixs tips where
    sd: "createDirectionInvoker cfg (SwapDirection_BUY cfg) = Inr sd"
    and cl: "clientInstructions w client sd
       \<lparr>mintAddress = m, walletKey = tp_wallet p, amountArg = tp_amount p,
        slippageArg = sf\<rparr> = Inr ixs"
    and tp: "providerTipIxs cfg w prov (tp_wallet p) (or_default (tp_tipAmountSol p) (Fin 0)) =
       Inr tips"
    and tx: "tx = \<lparr>instructions =
             computeBudgetIxs w (or_default (tp_priorityFeeSol p) (Fin (1 / 10000))) @ ixs @
             devTipIxs cfg (SwapDirection_BUY cfg) (tp_wallet p) (tp_amount p) @ tips,
           feePayer = Some (tp_wallet p)\<rparr>"
    by blast
  from sd have b: "sd = Buy" by (simp add: createDirectionInvoker_buy)
  from tx have "instructions tx =
           computeBudgetIxs w (or_default (tp_priorityFeeSol p) (Fin (1 / 10000))) @ ixs @
           (if js_gt (js_mul (js_or0 (tp_amount p)) (DEV_TIP_RATE cfg)) (Fin 0)
            then [createTipInstruction (DEV_TIP_ADDRESS cfg) (tp_wallet p)
                    (js_mul (tp_amount p) (DEV_TIP_RATE cfg))]
            else []) @ tips"
    by (simp only: devTipIxs_buy transaction.simps)
  with cl[unfolded b] tp
  show "\<exists>m sf client ixs tips.
         clientInstructions w client Buy
           \<lparr>mintAddress = m, walletKey = tp_wallet p, amountArg = tp_amount p,
            slippageArg = sf\<rparr> = Inr ixs \<and>
         providerTipIxs cfg w prov (tp_wallet p) (or_default (tp_tipAmountSol p) (Fin 0))
           = Inr tips \<and>
         instructions tx =
           computeBudgetIxs w (or_default (tp_priorityFeeSol p) (Fin (1 / 10000))) @ ixs @
           (if js_gt (js_mul (js_or0 (tp_amount p)) (DEV_TIP_RATE cfg)) (Fin 0)
            then [createTipInstruction (DEV_TIP_ADDRESS cfg) (tp_wallet p)
                    (js_mul (tp_amount p) (DEV_TIP_RATE cfg))]
            else []) @ tips"
    by blast
next
  show "js_gt (js_mul (js_or0 (Fin a)) (Fin r)) (Fin 0) \<longleftrightarrow> 2 powi (- 1075) < a * r"
    by (rule dev_tip_positive_iff)
next
  fix tx prov
  assume ne: "SwapDirection_SELL cfg \<noteq> SwapDirection_BUY cfg"
    and "sell cfg w p = Inr (tx, prov)"
  then have "trade cfg w (SwapDirection_SELL cfg) p = Inr (tx, prov)"
    by (simp add: sell_def)
  from trade_Inr_shape[OF this] devTipIxs_not_buy[OF ne, of "tp_wallet p" "tp_amount p"] ne
  show "\<exists>m sf client ixs tips.
                  clientInstructions w client Sell
                    \<lparr>mintAddress = m, walletKey = tp_wallet p, amountArg = tp_amount p,
                     slippageArg = sf\<rparr> = Inr ixs \<and>
                  providerTipIxs cfg w prov (tp_wallet p) (or_default (tp_tipAmountSol p) (Fin 0))
                    = Inr tips \<and>
                  instructions tx =
                    computeBudgetIxs w (or_default (tp_priorityFeeSol p) (Fin (1 / 10000))) @
                    ixs @ tips"
    by (fastforce simp: createDirectionInvoker_def)
qed

lemma example_buy_tip0:
  "buy example_config example_world (example_request (Fin (1 / 100)) (Fin 0)) =
     Inr (\<lparr>instructions =
             [ComputeBudgetIx ''setComputeUnitPrice'', ProgramIx ''venue'' ''swap'',
              TipIx ''DevTip'' ''Wallet'' (Fin (3458764513820541 / 2305843009213693952))],
           feePayer = Some ''Wallet''\<rparr>, None)"
  by (simp add: trade_eval_defs example_defs)

lemma example_sell_tip0:
  "sell example_config example_world (example_request (Fin (1 / 100)) (Fin 0)) =
     Inr (\<lparr>instructions =
             [ComputeBudgetIx ''setComputeUnitPrice'', ProgramIx ''venue'' ''swap''],
           feePayer = Some ''Wallet''\<rparr>, None)"
  by (simp add: trade_eval_defs example_defs)

lemma example_dev_tip_product:
  "js_mul (Fin (3 / 2)) (Fin (1152921504606847 / 1152921504606846976)) =
     Fin (3458764513820541 / 2305843009213693952)"
  by (simp add: to_double_eval)

lemma underflow_product:
  "js_mul (js_or0 (Fin MIN_VALUE)) (Fin (1152921504606847 / 1152921504606846976)) = Fin 0"
proof -
  have "MIN_VALUE * (1152921504606847 / 1152921504606846976) \<le> MIN_VALUE * (1 / 2)"
    using MIN_VALUE_pos by (intro mult_left_mono) simp_all
  also have "MIN_VALUE * (1 / 2) = 2 powi (- 1074 - 1)"
    by (simp only: MIN_VALUE_def power_int_half)
  also have "- 1074 - 1 = (- 1075 :: int)" by simp
  finally have le: "MIN_VALUE * (1152921504606847 / 1152921504606846976) \<le> 2 powi (- 1075)" .
  have "0 \<le> MIN_VALUE * (1152921504606847 / 1152921504606846976)"
    using MIN_VALUE_pos by simp
  from to_double_underflow[OF this le] MIN_VALUE_pos show ?thesis
    by (simp add: js_or0_def)
qed

theorem dev_tip_underflow_counterexample:
  "js_gt (tp_amount underflow_request) (Fin 0) \<and>
   js_gt (DEV_TIP_RATE example_config) (Fin 0) \<and>
   buy example_config example_world underflow_request =
     Inr (\<lparr>instructions =
             [ComputeBudgetIx ''setComputeUnitPrice'', ProgramIx ''venue'' ''swap''],
           feePayer = Some ''Wallet''\<rparr>, None)"
proof -
  have a: "js_gt (tp_amount underflow_request) (Fin 0)"
    using MIN_VALUE_pos by (simp add: underflow_request_def js_gt_def)
  have r: "js_gt (DEV_TIP_RATE example_config) (Fin 0)"
    by (simp add: example_defs js_gt_def)
  have d: "devTipIxs example_config ''buy'' ''Wallet'' (Fin MIN_VALUE) = []"
    using underflow_product by (simp add: devTipIxs_def example_defs js_gt_def)
  have b: "buy example_config example_world underflow_request =
     Inr (\<lparr>instructions =
             [ComputeBudgetIx ''setComputeUnitPrice'', ProgramIx ''venue'' ''swap''],
           feePayer = Some ''Wallet''\<rparr>, None)"
    using d by (simp add: underflow_request_def trade_step_defs example_defs)
  show ?thesis by (rule conjI[OF a conjI[OF r b]])
qed

theorem buy_appends_dev_tip_witness:
  "SwapDirection_SELL example_config \<noteq> SwapDirection_BUY example_config \<and>
   buy example_config example_world (example_request (Fin (1 / 100)) (Fin 0)) =
     Inr (\<lparr>instructions =
             [ComputeBudgetIx ''setComputeUnitPrice'', ProgramIx ''venue'' ''swap'',
              TipIx ''DevTip'' ''Wallet'' (Fin (3458764513820541 / 2305843009213693952))],
           feePayer = Some ''Wallet''\<rparr>, None) \<and>
   sell example_config example_world (example_request (Fin (1 / 100)) (Fin 0)) =
     Inr (\<lparr>instructions =
             [ComputeBudgetIx ''setComputeUnitPrice'', ProgramIx ''venue'' ''swap''],
           feePayer = Some ''Wallet''\<rparr>, None) \<and>
   js_gt (js_mul (js_or0 (Fin (3 / 2))) (Fin (1152921504606847 / 1152921504606846976))) (Fin 0) \<and>
   (\<exists>ixs tips.
      [ComputeBudgetIx ''setComputeUnitPrice'', ProgramIx ''venue'' ''swap'',
       TipIx ''DevTip'' ''Wallet'' (Fin (3458764513820541 / 2305843009213693952))] =
      [ComputeBudgetIx ''setComputeUnitPrice''] @ ixs @
      [TipIx ''DevTip'' ''Wallet'' (Fin (3458764513820541 / 2305843009213693952))] @ tips) \<and>
   (\<exists>ixs tips.
      [ComputeBudgetIx ''setComputeUnitPrice'', ProgramIx ''venue'' ''swap''] =
      [ComputeBudgetIx ''setComputeUnitPrice''] @ ixs @ tips)"
proof -
  let ?p = "example_request (Fin (1 / 100)) (Fin 0)"
  let ?r = "1152921504606847 / 1152921504606846976 :: rat"
  have ne: "SwapDirection_SELL example_config \<noteq> SwapDirection_BUY example_config"
    by (simp add: example_defs)
  note th = buy_appends_dev_tip[of example_config example_world ?p "3 / 2" ?r]
  have "(2::rat) powi (- 1075) < 2 powi (- 10)"
    by (rule power_int_strict_increasing) simp_all
  also have "(2::rat) powi (- 10) \<le> 3 / 2 * ?r" by simp
  finally have big: "2 powi (- 1075) < 3 / 2 * ?r" .
  note pos = th[THEN conjunct2, THEN conjunct1, THEN iffD2, OF big]
  have o: "js_or0 (Fin (3 / 2)) = Fin (3 / 2)" by (simp add: js_or0_def)
  from th[THEN conjunct1, THEN spec, THEN spec, THEN mp, OF example_buy_tip0]
  obtain ixs tips where
    "instructions (\<lparr>instructions =
             [ComputeBudgetIx ''setComputeUnitPrice'', ProgramIx ''venue'' ''swap'',
              TipIx ''DevTip'' ''Wallet'' (Fin (3458764513820541 / 2305843009213693952))],
           feePayer = Some ''Wallet''\<rparr>) =
        computeBudgetIxs example_world (or_default (tp_priorityFeeSol ?p) (Fin (1 / 10000))) @ ixs @
        (if js_gt (js_mul (js_or0 (tp_amount ?p)) (DEV_TIP_RATE example_config)) (Fin 0)
         then [createTipInstruction (DEV_TIP_ADDRESS example_config) (tp_wallet ?p)
                 (js_mul (tp_amount ?p) (DEV_TIP_RATE example_config))]
         else []) @ tips"
    by blast
  with pos[unfolded o] have b: "\<exists>ixs tips.
      [ComputeBudgetIx ''setComputeUnitPrice'', ProgramIx ''venue'' ''swap'',
       TipIx ''DevTip'' ''Wallet'' (Fin (3458764513820541 / 2305843009213693952))] =
      [ComputeBudgetIx ''setComputeUnitPrice''] @ ixs @
      [TipIx ''DevTip'' ''Wallet'' (Fin (3458764513820541 / 2305843009213693952))] @ tips"
    using example_dev_tip_product
    by (auto simp: example_defs createTipInstruction_def js_or0_def simp del: js_mul.simps)
  from th[THEN conjunct2, THEN conjunct2, THEN mp, OF ne, THEN spec, THEN spec, THEN mp,
          OF example_sell_tip0]
  obtain ixs' tips' where
    "instructions (\<lparr>instructions =
             [ComputeBudgetIx ''setComputeUnitPrice'', ProgramIx ''venue'' ''swap''],
           feePayer = Some ''Wallet''\<rparr>) =
        computeBudgetIxs example_world (or_default (tp_priorityFeeSol ?p) (Fin (1 / 10000))) @
        ixs' @ tips'"
    by blast
  then have c: "\<exists>ixs tips.
      [ComputeBudgetIx ''setComputeUnitPrice'', ProgramIx ''venue'' ''swap''] =
      [ComputeBudgetIx ''setComputeUnitPrice''] @ ixs @ tips"
    by (auto simp: example_defs)
  show ?thesis
    by (rule conjI[OF ne conjI[OF example_buy_tip0 conjI[OF example_sell_tip0
          conjI[OF pos conjI[OF b c]]]]])
qed

subsection \<open>Slippage validation of the compiler\<close>

text \<open>
  Claim C7. \<open>buildTransaction\<close> answers every slippage below 0 or above 1 with the
  out-of-range error, whatever the other parameters and collaborators are (nothing else
  is consulted), and lets 0 and 1 through: the out-of-range error is not raised, and the
  transaction is built once the market, the direction and the venue succeed.
\<close>
theorem buildTransaction_slippage_bounds:
  "(js_lt (bp_slippage p) (Fin 0) \<or> js_gt (bp_slippage p) (Fin 1) \<longrightarrow>
      buildTransaction cfg w p = Inl SlippageOutOfRange) \<and>
   (bp_slippage p = Fin 0 \<or> bp_slippage p = Fin 1 \<longrightarrow>
      buildTransaction cfg w p \<noteq> Inl SlippageOutOfRange \<and>
      (\<forall>client s ixs.
         createMarketClient cfg (bp_market p) = Inr client \<and>
         createDirectionInvoker cfg (bp_direction p) = Inr s \<and>
         clientInstructions w client s
           \<lparr>mintAddress = bp_mint p, walletKey = bp_wallet p, amountArg = bp_amount p,
            slippageArg = bp_slippage p\<rparr> = Inr ixs \<longrightarrow>
         (\<exists>tx. buildTransaction cfg w p = Inr tx)))"
proof (intro conjI impI)
  assume "js_lt (bp_slippage p) (Fin 0) \<or> js_gt (bp_slippage p) (Fin 1)"
  then show "buildTransaction cfg w p = Inl SlippageOutOfRange"
    by (simp add: buildTransaction_def)
next
  assume "bp_slippage p = Fin 0 \<or> bp_slippage p = Fin 1"
  then have ok: "\<not> (js_lt (bp_slippage p) (Fin 0) \<or> js_gt (bp_slippage p) (Fin 1))"
    by (auto simp: js_gt_def)
  then show "buildTransaction cfg w p \<noteq> Inl SlippageOutOfRange"
    by (simp add: buildTransaction_out_of_range_iff)
  from ok show "\<forall>client s ixs.
         createMarketClient cfg (bp_market p) = Inr client \<and>
         createDirectionInvoker cfg (bp_direction p) = Inr s \<and>
         clientInstructions w client s
           \<lparr>mintAddress = bp_mint p, walletKey = bp_wallet p, amountArg = bp_amount p,
            slippageArg = bp_slippage p\<rparr> = Inr ixs \<longrightarrow>
         (\<exists>tx. buildTransaction cfg w p = Inr tx)"
    by (auto simp: buildTransaction_def Let_def)
qed

theorem buildTransaction_slippage_bounds_witness:
  "buildTransaction example_config example_world (example_build (Fin (- 1 / 100))) =
     Inl SlippageOutOfRange \<and>
   buildTransaction example_config example_world (example_build (Fin (101 / 100))) =
     Inl SlippageOutOfRange \<and>
   (\<exists>tx. buildTransaction example_config example_world (example_build (Fin 0)) = Inr tx) \<and>
   (\<exists>tx. buildTransaction example_config example_world (example_build (Fin 1)) = Inr tx)"
proof -
  note th = buildTransaction_slippage_bounds[of _ example_config example_world]
  have lo: "js_lt (bp_slippage (example_build (Fin (- 1 / 100)))) (Fin 0)"
    by (simp add: example_build_def)
  have hi: "js_gt (bp_slippage (example_build (Fin (101 / 100)))) (Fin 1)"
    by (simp add: example_build_def js_gt_def)
  have mk: "createMarketClient example_config (bp_market (example_build x)) = Inr METEORA_DLMM"
    for x by (simp add: createMarketClient_def switch_order_def example_defs)
  have dr: "createDirectionInvoker example_config (bp_direction (example_build x)) = Inr Buy"
    for x by (simp add: createDirectionInvoker_def example_defs)
  have cl: "clientInstructions example_world METEORA_DLMM Buy a = Inr [ProgramIx ''venue'' ''swap'']"
    for a by (simp add: example_defs stripNonEssentialInstructions_def)
  have z: "bp_slippage (example_build (Fin 0)) = Fin 0" and o: "bp_slippage (example_build (Fin 1)) = Fin 1"
    by (simp_all add: example_build_def)
  from th[of "example_build (Fin (- 1 / 100))"] lo
  have 1: "buildTransaction example_config example_world (example_build (Fin (- 1 / 100))) =
     Inl SlippageOutOfRange" by blast
  from th[of "example_build (Fin (101 / 100))"] hi
  have 2: "buildTransaction example_config example_world (example_build (Fin (101 / 100))) =
     Inl SlippageOutOfRange" by blast
  from th[of "example_build (Fin 0)"] z mk dr cl
  have 3: "\<exists>tx. buildTransaction example_config example_world (example_build (Fin 0)) = Inr tx"
    by blast
  from th[of "example_build (Fin 1)"] o mk dr cl
  have 4: "\<exists>tx. buildTransaction example_config example_world (example_build (Fin 1)) = Inr tx"
    by blast
  from 1 2 3 4 show ?thesis by blast
qed

subsection \<open>Slippage normalisation of the public surface\<close>




lemma chooseProvider_tip_002: "chooseProvider None (Some (Fin (2 / 1000))) = Some NOZOMI"
  by (simp add: chooseProvider_def js_or0_def js_le_def js_ge_def)

lemma js_max_tip_002_pos: "m \<noteq> NaN \<Longrightarrow> js_gt (js_max (Fin (2 / 1000)) m) (Fin 0)"
  by (cases m) (auto simp: js_max_def js_gt_def)

lemma providerTipIxs_nozomi_002:
  assumes "NOZOMI_MIN_TIP_SOL cfg \<noteq> NaN"
    and "providerTipIxs cfg w (Some NOZOMI) wl (Fin (2 / 1000)) = Inr tips"
  shows "\<exists>addr. addr \<in> set (NOZOMI_TIP_ADDRESSES cfg) \<and>
           computeProviderTip cfg w NOZOMI (Fin (2 / 1000)) =
             Inr (addr, js_max (Fin (2 / 1000)) (NOZOMI_MIN_TIP_SOL cfg)) \<and>
           tips = [createTipInstruction addr wl (js_max (Fin (2 / 1000)) (NOZOMI_MIN_TIP_SOL cfg))]"
proof -
  have o: "js_or0 (Fin (2 / 1000)) = Fin (2 / 1000)" by (simp add: js_or0_def)
  have g: "js_gt (Fin (2 / 1000)) (Fin 0)" by (simp add: js_gt_def)
  from assms(2) o g obtain addr ft where
    c: "computeProviderTip cfg w NOZOMI (Fin (2 / 1000)) = Inr (addr, ft)"
    by (auto simp: providerTipIxs_def split: sum.splits)
  then have ft: "ft = js_max (Fin (2 / 1000)) (NOZOMI_MIN_TIP_SOL cfg)"
    and mem: "addr \<in> set (NOZOMI_TIP_ADDRESSES cfg)"
    using o by (auto simp: computeProviderTip_def Let_def split: if_splits)
  from assms(2) c ft js_max_tip_002_pos[OF assms(1)] o g
  have "tips = [createTipInstruction addr wl (js_max (Fin (2 / 1000)) (NOZOMI_MIN_TIP_SOL cfg))]"
    by (simp add: providerTipIxs_def)
  with c ft mem show ?thesis by blast
qed

subsection \<open>A tip of 0.002 without an explicit sender\<close>

text \<open>
  Claim C1, as amended. With tip 0.002 and no explicit sender, a trade that compiles is
  routed to \<open>NOZOMI\<close>, the final tip is \<open>max(0.002, NOZOMI_MIN_TIP_SOL)\<close> (the minimum not
  being \<open>NaN\<close>), and exactly one provider tip instruction of that amount, addressed to a
  Nozomi tip address, is the last instruction: after the compute-budget instructions, the
  venue's swap instructions and the dev tip of a buy.
\<close>
theorem tip_002_routes_to_nozomi_tip_last:
  assumes "tp_tipAmountSol p = Some (Fin (2 / 1000))"
    and "tp_sender p = None"
    and "NOZOMI_MIN_TIP_SOL cfg \<noteq> NaN"
    and "trade cfg w d p = Inr (tx, prov)"
  shows "prov = Some NOZOMI \<and>
         (\<exists>addr m sf client s ixs.
            addr \<in> set (NOZOMI_TIP_ADDRESSES cfg) \<and>
            computeProviderTip cfg w NOZOMI (Fin (2 / 1000)) =
              Inr (addr, js_max (Fin (2 / 1000)) (NOZOMI_MIN_TIP_SOL cfg)) \<and>
            clientInstructions w client s
              \<lparr>mintAddress = m, walletKey = tp_wallet p, amountArg = tp_amount p,
               slippageArg = sf\<rparr> = Inr ixs \<and>
            instructions tx =
              computeBudgetIxs w (or_default (tp_priorityFeeSol p) (Fin (1 / 10000))) @ ixs @
              devTipIxs cfg d (tp_wallet p) (tp_amount p) @
              [createTipInstruction addr (tp_wallet p)
                 (js_max (Fin (2 / 1000)) (NOZOMI_MIN_TIP_SOL cfg))])"
proof -
  from trade_Inr_shape[OF assms(4)] obtain m sf client s ixs tips where
    cl: "clientInstructions w client s
          \<lparr>mintAddress = m, walletKey = tp_wallet p, amountArg = tp_amount p,
           slippageArg = sf\<rparr> = Inr ixs"
    and pr: "prov = chooseProvider (tp_sender p) (Some (or_default (tp_tipAmountSol p) (Fin 0)))"
    and tp: "providerTipIxs cfg w prov (tp_wallet p) (or_default (tp_tipAmountSol p) (Fin 0)) = Inr tips"
    and tx: "tx = \<lparr>instructions =
             computeBudgetIxs w (or_default (tp_priorityFeeSol p) (Fin (1 / 10000))) @ ixs @
             devTipIxs cfg d (tp_wallet p) (tp_amount p) @ tips,
           feePayer = Some (tp_wallet p)\<rparr>"
    by blast
  from pr assms(1,2) chooseProvider_tip_002 have prov: "prov = Some NOZOMI"
    by simp
  from tp prov assms(1)
  have "providerTipIxs cfg w (Some NOZOMI) (tp_wallet p) (Fin (2 / 1000)) = Inr tips"
    by simp
  from providerTipIxs_nozomi_002[OF assms(3) this] obtain addr where
    "addr \<in> set (NOZOMI_TIP_ADDRESSES cfg)"
    "computeProviderTip cfg w NOZOMI (Fin (2 / 1000)) =
       Inr (addr, js_max (Fin (2 / 1000)) (NOZOMI_MIN_TIP_SOL cfg))"
    "tips = [createTipInstruction addr (tp_wallet p)
               (js_max (Fin (2 / 1000)) (NOZOMI_MIN_TIP_SOL cfg))]"
    by blast
  with cl tx prov show ?thesis by auto
qed

lemma example_sell_tip002:
  "sell example_config example_world (example_request (Fin (1 / 100)) (Fin (2 / 1000))) =
     Inr (\<lparr>instructions =
             [ComputeBudgetIx ''setComputeUnitPrice'', ProgramIx ''venue'' ''swap'',
              TipIx ''NozomiTip1'' ''Wallet'' (Fin (2 / 1000))],
           feePayer = Some ''Wallet''\<rparr>, Some NOZOMI)"
  by (simp add: trade_eval_defs example_defs)

lemma example_buy_tip002:
  "buy example_config example_world (example_request (Fin (1 / 100)) (Fin (2 / 1000))) =
     Inr (\<lparr>instructions =
             [ComputeBudgetIx ''setComputeUnitPrice'', ProgramIx ''venue'' ''swap'',
              TipIx ''DevTip'' ''Wallet'' (Fin (3458764513820541 / 2305843009213693952)),
              TipIx ''NozomiTip1'' ''Wallet'' (Fin (2 / 1000))],
           feePayer = Some ''Wallet''\<rparr>, Some NOZOMI)"
  by (simp add: trade_eval_defs example_defs)

theorem tip_002_routes_to_nozomi_tip_last_witness:
  "tp_tipAmountSol (example_request (Fin (1 / 100)) (Fin (2 / 1000))) = Some (Fin (2 / 1000)) \<and>
   tp_sender (example_request (Fin (1 / 100)) (Fin (2 / 1000))) = None \<and>
   NOZOMI_MIN_TIP_SOL example_config \<noteq> NaN \<and>
   trade example_config example_world ''sell'' (example_request (Fin (1 / 100)) (Fin (2 / 1000))) =
     Inr (\<lparr>instructions =
             [ComputeBudgetIx ''setComputeUnitPrice'', ProgramIx ''venue'' ''swap'',
              TipIx ''NozomiTip1'' ''Wallet'' (Fin (2 / 1000))],
           feePayer = Some ''Wallet''\<rparr>, Some NOZOMI) \<and>
   (\<exists>addr. computeProviderTip example_config example_world NOZOMI (Fin (2 / 1000)) =
            Inr (addr, Fin (2 / 1000)))"
proof -
  let ?p = "example_request (Fin (1 / 100)) (Fin (2 / 1000))"
  have 1: "tp_tipAmountSol ?p = Some (Fin (2 / 1000))" by (simp add: example_defs)
  have 2: "tp_sender ?p = None" by (simp add: example_defs)
  have 3: "NOZOMI_MIN_TIP_SOL example_config \<noteq> NaN" by (simp add: example_defs)
  have 4: "trade example_config example_world ''sell'' ?p =
     Inr (\<lparr>instructions =
             [ComputeBudgetIx ''setComputeUnitPrice'', ProgramIx ''venue'' ''swap'',
              TipIx ''NozomiTip1'' ''Wallet'' (Fin (2 / 1000))],
           feePayer = Some ''Wallet''\<rparr>, Some NOZOMI)"
    using example_sell_tip002 by (simp add: sell_def example_config_def)
  have mx: "js_max (Fin (2 / 1000)) (NOZOMI_MIN_TIP_SOL example_config) = Fin (2 / 1000)"
    by (simp add: js_max_def example_defs)
  from tip_002_routes_to_nozomi_tip_last[OF 1 2 3 4]
  have 5: "\<exists>addr. computeProviderTip example_config example_world NOZOMI (Fin (2 / 1000)) =
            Inr (addr, Fin (2 / 1000))"
    unfolding mx by blast
  from 1 2 3 4 5 show ?thesis by blast
qed

theorem tip_002_placed_before_swap_counterexample:
  "sell example_config example_world (example_request (Fin (1 / 100)) (Fin (2 / 1000))) =
     Inr (\<lparr>instructions =
             [ComputeBudgetIx ''setComputeUnitPrice'', ProgramIx ''venue'' ''swap'',
              TipIx ''NozomiTip1'' ''Wallet'' (Fin (2 / 1000))],
           feePayer = Some ''Wallet''\<rparr>, Some NOZOMI) \<and>
   buy example_config example_world (example_request (Fin (1 / 100)) (Fin (2 / 1000))) =
     Inr (\<lparr>instructions =
             [ComputeBudgetIx ''setComputeUnitPrice'', ProgramIx ''venue'' ''swap'',
              TipIx ''DevTip'' ''Wallet'' (Fin (3458764513820541 / 2305843009213693952)),
              TipIx ''NozomiTip1'' ''Wallet'' (Fin (2 / 1000))],
           feePayer = Some ''Wallet''\<rparr>, Some NOZOMI) \<and>
   [ComputeBudgetIx ''setComputeUnitPrice'', ProgramIx ''venue'' ''swap'',
    TipIx ''NozomiTip1'' ''Wallet'' (Fin (2 / 1000))] ! 1 = ProgramIx ''venue'' ''swap'' \<and>
   length (filter is_tip
     [ComputeBudgetIx ''setComputeUnitPrice'', ProgramIx ''venue'' ''swap'',
      TipIx ''DevTip'' ''Wallet'' (Fin (3458764513820541 / 2305843009213693952)),
      TipIx ''NozomiTip1'' ''Wallet'' (Fin (2 / 1000))]) = 2"
  using example_sell_tip002 example_buy_tip002 by simp

subsection \<open>A buy without a tip\<close>

text \<open>
  Claim C3, as amended. A buy with tip 0 that compiles is routed to the standard client
  (no provider), and its instructions are the compute-budget instructions of
  \<open>createComputeBudgetInstructions\<close>, then the venue's swap instructions, then the dev
  tip instruction exactly when \<open>(amount || 0) * DEV_TIP_RATE > 0\<close>; no provider tip is
  added.
\<close>
theorem buy_without_tip_layout:
  assumes "or_default (tp_tipAmountSol p) (Fin 0) = Fin 0"
    and "buy cfg w p = Inr (tx, prov)"
  shows "prov = None \<and>
         (\<exists>m sf client ixs.
            clientInstructions w client Buy
              \<lparr>mintAddress = m, walletKey = tp_wallet p, amountArg = tp_amount p,
               slippageArg = sf\<rparr> = Inr ixs \<and>
            instructions tx =
              computeBudgetIxs w (or_default (tp_priorityFeeSol p) (Fin (1 / 10000))) @ ixs @
              (if js_gt (js_mul (js_or0 (tp_amount p)) (DEV_TIP_RATE cfg)) (Fin 0)
               then [createTipInstruction (DEV_TIP_ADDRESS cfg) (tp_wallet p)
                       (js_mul (js_or0 (tp_amount p)) (DEV_TIP_RATE cfg))]
               else []))"
proof -
  from assms(2) have "trade cfg w (SwapDirection_BUY cfg) p = Inr (tx, prov)"
    by (simp add: buy_def)
  from trade_Inr_shape[OF this] obtain m sf client s ixs tips where
    dr: "createDirectionInvoker cfg (SwapDirection_BUY cfg) = Inr s"
    and cl: "clientInstructions w client s
          \<lparr>mintAddress = m, walletKey = tp_wallet p, amountArg = tp_amount p,
           slippageArg = sf\<rparr> = Inr ixs"
    and pr: "prov = chooseProvider (tp_sender p) (Some (or_default (tp_tipAmountSol p) (Fin 0)))"
    and tp: "providerTipIxs cfg w prov (tp_wallet p) (or_default (tp_tipAmountSol p) (Fin 0)) = Inr tips"
    and tx: "tx = \<lparr>instructions =
             computeBudgetIxs w (or_default (tp_priorityFeeSol p) (Fin (1 / 10000))) @ ixs @
             devTipIxs cfg (SwapDirection_BUY cfg) (tp_wallet p) (tp_amount p) @ tips,
           feePayer = Some (tp_wallet p)\<rparr>"
    by blast
  from pr assms(1) have prov: "prov = None"
    by (simp add: chooseProvider_def js_or0_def js_le_def)
  with tp have tips: "tips = []" by (simp add: providerTipIxs_def)
  from dr have s: "s = Buy" by (simp add: createDirectionInvoker_buy)
  have dev: "devTipIxs cfg (SwapDirection_BUY cfg) (tp_wallet p) (tp_amount p) =
      (if js_gt (js_mul (js_or0 (tp_amount p)) (DEV_TIP_RATE cfg)) (Fin 0)
               then [createTipInstruction (DEV_TIP_ADDRESS cfg) (tp_wallet p)
                       (js_mul (js_or0 (tp_amount p)) (DEV_TIP_RATE cfg))]
               else [])"
    by (simp add: devTipIxs_def Let_def)
  from cl s tx tips dev prov show ?thesis by auto
qed

theorem buy_without_tip_layout_witness:
  "or_default (tp_tipAmountSol (example_request (Fin (1 / 100)) (Fin 0))) (Fin 0) = Fin 0 \<and>
   buy example_config example_world (example_request (Fin (1 / 100)) (Fin 0)) =
     Inr (\<lparr>instructions =
             [ComputeBudgetIx ''setComputeUnitPrice'', ProgramIx ''venue'' ''swap'',
              TipIx ''DevTip'' ''Wallet'' (Fin (3458764513820541 / 2305843009213693952))],
           feePayer = Some ''Wallet''\<rparr>, None) \<and>
   (\<exists>ixs. [ComputeBudgetIx ''setComputeUnitPrice'', ProgramIx ''venue'' ''swap'',
            TipIx ''DevTip'' ''Wallet'' (Fin (3458764513820541 / 2305843009213693952))] =
           [ComputeBudgetIx ''setComputeUnitPrice''] @ ixs @
           [TipIx ''DevTip'' ''Wallet'' (Fin (3458764513820541 / 2305843009213693952))])"
proof -
  let ?p = "example_request (Fin (1 / 100)) (Fin 0)"
  have 1: "or_default (tp_tipAmountSol ?p) (Fin 0) = Fin 0" by (simp add: example_defs)
  from buy_without_tip_layout[OF 1 example_buy_tip0] obtain ixs where
    "instructions \<lparr>instructions =
             [ComputeBudgetIx ''setComputeUnitPrice'', ProgramIx ''venue'' ''swap'',
              TipIx ''DevTip'' ''Wallet'' (Fin (3458764513820541 / 2305843009213693952))],
           feePayer = Some ''Wallet''\<rparr> =
      computeBudgetIxs example_world (or_default (tp_priorityFeeSol ?p) (Fin (1 / 10000))) @ ixs @
              (if js_gt (js_mul (js_or0 (tp_amount ?p)) (DEV_TIP_RATE example_config)) (Fin 0)
               then [createTipInstruction (DEV_TIP_ADDRESS example_config) (tp_wallet ?p)
                       (js_mul (js_or0 (tp_amount ?p)) (DEV_TIP_RATE example_config))]
               else [])"
    by blast
  then have 3: "\<exists>ixs. [ComputeBudgetIx ''setComputeUnitPrice'', ProgramIx ''venue'' ''swap'',
            TipIx ''DevTip'' ''Wallet'' (Fin (3458764513820541 / 2305843009213693952))] =
           [ComputeBudgetIx ''setComputeUnitPrice''] @ ixs @
           [TipIx ''DevTip'' ''Wallet'' (Fin (3458764513820541 / 2305843009213693952))]"
    by (auto simp: example_defs createTipInstruction_def js_or0_def js_gt_def)
  from 1 example_buy_tip0 3 show ?thesis by blast
qed

theorem buy_without_tip_has_no_tip_counterexample:
  "buy example_config example_world (example_request (Fin (1 / 100)) (Fin 0)) =
     Inr (\<lparr>instructions =
             [ComputeBudgetIx ''setComputeUnitPrice'', ProgramIx ''venue'' ''swap'',
              TipIx ''DevTip'' ''Wallet'' (Fin (3458764513820541 / 2305843009213693952))],
           feePayer = Some ''Wallet''\<rparr>, None) \<and>
   filter is_tip
     [ComputeBudgetIx ''setComputeUnitPrice'', ProgramIx ''venue'' ''swap'',
      TipIx ''DevTip'' ''Wallet'' (Fin (3458764513820541 / 2305843009213693952))] =
     [TipIx ''DevTip'' ''Wallet'' (Fin (3458764513820541 / 2305843009213693952))]"
  using example_buy_tip0 by simp

subsection \<open>Compute-budget instructions in what the adapters return\<close>







section \<open>Properties of the pool resolvers\<close>

subsection \<open>The order of JavaScript numbers\<close>

lemma js_lt_trans: "js_lt a b \<Longrightarrow> js_lt b c \<Longrightarrow> js_lt a c"
  by (cases a; cases b; cases c) auto

lemma js_lt_irrefl: "\<not> js_lt a a"
  by (cases a) auto

lemma js_le_lt_trans: "a \<noteq> NaN \<Longrightarrow> b \<noteq> NaN \<Longrightarrow> \<not> js_lt b a \<Longrightarrow> js_lt b c \<Longrightarrow> js_lt a c"
  by (cases a; cases b; cases c) auto

lemma js_not_lt_trans:
  "a \<noteq> NaN \<Longrightarrow> b \<noteq> NaN \<Longrightarrow> c \<noteq> NaN \<Longrightarrow> \<not> js_lt b a \<Longrightarrow> \<not> js_lt c b \<Longrightarrow> \<not> js_lt c a"
  by (cases a; cases b; cases c) auto

lemma js_lt_not_lt_trans:
  "a \<noteq> NaN \<Longrightarrow> b \<noteq> NaN \<Longrightarrow> c \<noteq> NaN \<Longrightarrow> js_lt a b \<Longrightarrow> \<not> js_lt c b \<Longrightarrow> js_lt a c"
  by (cases a; cases b; cases c) auto

subsection \<open>Selection among candidate pools\<close>

lemma foldl_bestStep_Some:
  assumes "\<forall>x\<in>set xs. score x \<noteq> NaN" and "s \<noteq> NaN"
  shows "(foldl (bestStep keep score) (Some (b, s)) xs = Some (b, s) \<and>
            (\<forall>x\<in>set xs. \<not> js_gt (score x) s)) \<or>
         (\<exists>pre it post. xs = pre @ it # post \<and>
            foldl (bestStep keep score) (Some (b, s)) xs = Some (keep it, score it) \<and>
            js_gt (score it) s \<and>
            (\<forall>x\<in>set pre. js_lt (score x) (score it)) \<and>
            (\<forall>x\<in>set post. \<not> js_gt (score x) (score it)))"
  using assms
proof (induction xs arbitrary: b s)
  case Nil
  then show ?case by simp
next
  case (Cons x xs)
  from Cons.prems have nx: "score x \<noteq> NaN" and nxs: "\<forall>y\<in>set xs. score y \<noteq> NaN"
    by auto
  show ?case
  proof (cases "js_gt (score x) s")
    case True
    then have step: "bestStep keep score (Some (b, s)) x = Some (keep x, score x)"
      by (simp add: bestStep_def)
    from Cons.IH[OF nxs nx, of "keep x"]
    show ?thesis
    proof
      assume a: "foldl (bestStep keep score) (Some (keep x, score x)) xs = Some (keep x, score x) \<and>
                 (\<forall>y\<in>set xs. \<not> js_gt (score y) (score x))"
      have "x # xs = [] @ x # xs" by simp
      with a step True show ?thesis
        by (intro disjI2 exI[of _ "[]"] exI[of _ x] exI[of _ xs]) simp
    next
      assume "\<exists>pre it post. xs = pre @ it # post \<and>
            foldl (bestStep keep score) (Some (keep x, score x)) xs = Some (keep it, score it) \<and>
            js_gt (score it) (score x) \<and>
            (\<forall>y\<in>set pre. js_lt (score y) (score it)) \<and>
            (\<forall>y\<in>set post. \<not> js_gt (score y) (score it))"
      then obtain pre it post where p: "xs = pre @ it # post"
        "foldl (bestStep keep score) (Some (keep x, score x)) xs = Some (keep it, score it)"
        "js_gt (score it) (score x)"
        "\<forall>y\<in>set pre. js_lt (score y) (score it)"
        "\<forall>y\<in>set post. \<not> js_gt (score y) (score it)"
        by blast
      from True p(3) have "js_gt (score it) s"
        by (auto simp: js_gt_def intro: js_lt_trans)
      with p step show ?thesis
        by (intro disjI2 exI[of _ "x # pre"] exI[of _ it] exI[of _ post])
           (auto simp: js_gt_def)
    qed
  next
    case False
    then have step: "bestStep keep score (Some (b, s)) x = Some (b, s)"
      by (simp add: bestStep_def)
    from Cons.IH[OF nxs Cons.prems(2), of b]
    show ?thesis
    proof
      assume "foldl (bestStep keep score) (Some (b, s)) xs = Some (b, s) \<and>
                 (\<forall>y\<in>set xs. \<not> js_gt (score y) s)"
      with step False show ?thesis by simp
    next
      assume "\<exists>pre it post. xs = pre @ it # post \<and>
            foldl (bestStep keep score) (Some (b, s)) xs = Some (keep it, score it) \<and>
            js_gt (score it) s \<and>
            (\<forall>y\<in>set pre. js_lt (score y) (score it)) \<and>
            (\<forall>y\<in>set post. \<not> js_gt (score y) (score it))"
      then obtain pre it post where p: "xs = pre @ it # post"
        "foldl (bestStep keep score) (Some (b, s)) xs = Some (keep it, score it)"
        "js_gt (score it) s"
        "\<forall>y\<in>set pre. js_lt (score y) (score it)"
        "\<forall>y\<in>set post. \<not> js_gt (score y) (score it)"
        by blast
      from False p(3) nx Cons.prems(2) have "js_lt (score x) (score it)"
        by (auto simp: js_gt_def intro: js_le_lt_trans)
      with p step show ?thesis
        by (intro disjI2 exI[of _ "x # pre"] exI[of _ it] exI[of _ post]) auto
    qed
  qed
qed

lemma reduceBest_first_max:
  assumes "xs \<noteq> []" and "\<forall>x\<in>set xs. score x \<noteq> NaN"
  shows "\<exists>pre it post. xs = pre @ it # post \<and>
            reduceBest keep score xs = Some (keep it, score it) \<and>
            (\<forall>x\<in>set pre. js_lt (score x) (score it)) \<and>
            (\<forall>x\<in>set post. \<not> js_gt (score x) (score it))"
proof -
  from assms(1) obtain x ys where xs: "xs = x # ys" by (cases xs) auto
  with assms(2) have nx: "score x \<noteq> NaN" and nys: "\<forall>y\<in>set ys. score y \<noteq> NaN" by auto
  have start: "reduceBest keep score xs = foldl (bestStep keep score) (Some (keep x, score x)) ys"
    by (simp add: reduceBest_def xs bestStep_def)
  from foldl_bestStep_Some[OF nys nx, of keep "keep x"]
  show ?thesis
  proof
    assume "foldl (bestStep keep score) (Some (keep x, score x)) ys = Some (keep x, score x) \<and>
            (\<forall>y\<in>set ys. \<not> js_gt (score y) (score x))"
    with start xs show ?thesis
      by (intro exI[of _ "[]"] exI[of _ x] exI[of _ ys]) simp
  next
    assume "\<exists>pre it post. ys = pre @ it # post \<and>
            foldl (bestStep keep score) (Some (keep x, score x)) ys = Some (keep it, score it) \<and>
            js_gt (score it) (score x) \<and>
            (\<forall>y\<in>set pre. js_lt (score y) (score it)) \<and>
            (\<forall>y\<in>set post. \<not> js_gt (score y) (score it))"
    then obtain pre it post where p: "ys = pre @ it # post"
        "foldl (bestStep keep score) (Some (keep x, score x)) ys = Some (keep it, score it)"
        "js_gt (score it) (score x)"
        "\<forall>y\<in>set pre. js_lt (score y) (score it)"
        "\<forall>y\<in>set post. \<not> js_gt (score y) (score it)"
      by blast
    with start xs show ?thesis
      by (intro exI[of _ "x # pre"] exI[of _ it] exI[of _ post]) (auto simp: js_gt_def)
  qed
qed

lemma v2_score_pos:
  "\<forall>x\<in>set xs. js_gt (v2_tokenReserve js t x) (Fin 0) \<Longrightarrow> x \<in> set xs \<Longrightarrow>
   v2_score js t x = v2_tokenReserve js t x"
  by (simp add: v2_score_def)

lemma v2_score_nonpos:
  "\<forall>x\<in>set xs. \<not> js_gt (v2_tokenReserve js t x) (Fin 0) \<Longrightarrow> x \<in> set xs \<Longrightarrow>
   v2_score js t x = v2_tvl js x"
  by (simp add: v2_score_def)

lemma dlmm_score_pos:
  "\<forall>x\<in>set xs. js_gt (dlmm_tokenReserve js t x) (Fin 0) \<Longrightarrow> x \<in> set xs \<Longrightarrow>
   dlmm_score js t x = dlmm_tokenReserve js t x"
  by (simp add: dlmm_score_def)

lemma dlmm_score_nonpos:
  "\<forall>x\<in>set xs. \<not> js_gt (dlmm_tokenReserve js t x) (Fin 0) \<Longrightarrow> x \<in> set xs \<Longrightarrow>
   dlmm_score js t x = dlmm_totalLiq js x"
  by (simp add: dlmm_score_def)

lemma chooseBestPool_first_max:
  assumes "v2_subset t wsol items \<noteq> []"
    and "\<forall>x\<in>set (v2_subset t wsol items). v2_score js t x \<noteq> NaN"
  shows "\<exists>pre it post. v2_subset t wsol items = pre @ it # post \<and>
           chooseBestPool js items t wsol = Some it \<and>
           (\<forall>x\<in>set pre. js_lt (v2_score js t x) (v2_score js t it)) \<and>
           (\<forall>x\<in>set post. \<not> js_gt (v2_score js t x) (v2_score js t it))"
proof -
  from reduceBest_first_max[OF assms, of id] obtain pre it post where
    p: "v2_subset t wsol items = pre @ it # post"
       "reduceBest id (v2_score js t) (v2_subset t wsol items) = Some (id it, v2_score js t it)"
       "\<forall>x\<in>set pre. js_lt (v2_score js t x) (v2_score js t it)"
       "\<forall>x\<in>set post. \<not> js_gt (v2_score js t x) (v2_score js t it)"
    by blast
  from p(1,2) have "chooseBestPool js items t wsol = Some it"
    by (simp add: chooseBestPool_def Let_def)
  with p show ?thesis by blast
qed

lemma dlmm_snapshotMatch_first_max:
  assumes "dlmm_subset t wsol items \<noteq> []"
    and "\<forall>x\<in>set (dlmm_subset t wsol items). dlmm_score js t x \<noteq> NaN"
  shows "\<exists>pre it post. dlmm_subset t wsol items = pre @ it # post \<and>
           dlmm_snapshotMatch js t wsol items =
             (if address it \<noteq> [] then Some (address it) else None) \<and>
           (\<forall>x\<in>set pre. js_lt (dlmm_score js t x) (dlmm_score js t it)) \<and>
           (\<forall>x\<in>set post. \<not> js_gt (dlmm_score js t x) (dlmm_score js t it))"
proof -
  from reduceBest_first_max[OF assms, of address] obtain pre it post where
    p: "dlmm_subset t wsol items = pre @ it # post"
       "reduceBest address (dlmm_score js t) (dlmm_subset t wsol items) =
          Some (address it, dlmm_score js t it)"
       "\<forall>x\<in>set pre. js_lt (dlmm_score js t x) (dlmm_score js t it)"
       "\<forall>x\<in>set post. \<not> js_gt (dlmm_score js t x) (dlmm_score js t it)"
    by blast
  from p(1,2) have "dlmm_snapshotMatch js t wsol items =
             (if address it \<noteq> [] then Some (address it) else None)"
    by (simp add: dlmm_snapshotMatch_def Let_def)
  with p show ?thesis by blast
qed

text \<open>
  Claim C2, as amended. Each candidate is scored by its target-side reserve when that is
  positive and by its total liquidity/TVL otherwise, and the resolver selects the first
  candidate of the highest score (no score being \<open>NaN\<close>): every earlier candidate scores
  strictly less, no later one scores more. So among candidates that all have a positive
  reserve the first of the largest reserve is selected, and among candidates none of which
  has a positive reserve the first of the highest TVL. The DAMM v2 client returns that
  pool, the DLMM client its address (when it has one).
\<close>
theorem resolver_picks_first_of_best_score:
  "(v2_subset t wsol items \<noteq> [] \<and>
    (\<forall>x\<in>set (v2_subset t wsol items). v2_score js t x \<noteq> NaN) \<longrightarrow>
      (\<exists>pre it post.
         v2_subset t wsol items = pre @ it # post \<and>
         chooseBestPool js items t wsol = Some it \<and>
         (\<forall>x\<in>set pre. js_lt (v2_score js t x) (v2_score js t it)) \<and>
         (\<forall>x\<in>set post. \<not> js_gt (v2_score js t x) (v2_score js t it)) \<and>
         ((\<forall>x\<in>set (v2_subset t wsol items). js_gt (v2_tokenReserve js t x) (Fin 0)) \<longrightarrow>
            (\<forall>x\<in>set pre. js_lt (v2_tokenReserve js t x) (v2_tokenReserve js t it)) \<and>
            (\<forall>x\<in>set post. \<not> js_gt (v2_tokenReserve js t x) (v2_tokenReserve js t it))) \<and>
         ((\<forall>x\<in>set (v2_subset t wsol items). \<not> js_gt (v2_tokenReserve js t x) (Fin 0)) \<longrightarrow>
            (\<forall>x\<in>set pre. js_lt (v2_tvl js x) (v2_tvl js it)) \<and>
            (\<forall>x\<in>set post. \<not> js_gt (v2_tvl js x) (v2_tvl js it))))) \<and>
   (dlmm_subset t wsol ditems \<noteq> [] \<and>
    (\<forall>x\<in>set (dlmm_subset t wsol ditems). dlmm_score js t x \<noteq> NaN) \<longrightarrow>
      (\<exists>pre it post.
         dlmm_subset t wsol ditems = pre @ it # post \<and>
         dlmm_snapshotMatch js t wsol ditems =
           (if address it \<noteq> [] then Some (address it) else None) \<and>
         (\<forall>x\<in>set pre. js_lt (dlmm_score js t x) (dlmm_score js t it)) \<and>
         (\<forall>x\<in>set post. \<not> js_gt (dlmm_score js t x) (dlmm_score js t it)) \<and>
         ((\<forall>x\<in>set (dlmm_subset t wsol ditems). js_gt (dlmm_tokenReserve js t x) (Fin 0)) \<longrightarrow>
            (\<forall>x\<in>set pre. js_lt (dlmm_tokenReserve js t x) (dlmm_tokenReserve js t it)) \<and>
            (\<forall>x\<in>set post. \<not> js_gt (dlmm_tokenReserve js t x) (dlmm_tokenReserve js t it))) \<and>
         ((\<forall>x\<in>set (dlmm_subset t wsol ditems). \<not> js_gt (dlmm_tokenReserve js t x) (Fin 0)) \<longrightarrow>
            (\<forall>x\<in>set pre. js_lt (dlmm_totalLiq js x) (dlmm_totalLiq js it)) \<and>
            (\<forall>x\<in>set post. \<not> js_gt (dlmm_totalLiq js x) (dlmm_totalLiq js it)))))"
proof (intro conjI impI)
  assume "v2_subset t wsol items \<noteq> [] \<and>
    (\<forall>x\<in>set (v2_subset t wsol items). v2_score js t x \<noteq> NaN)"
  then obtain pre it post where
    p: "v2_subset t wsol items = pre @ it # post"
       "chooseBestPool js items t wsol = Some it"
       "\<forall>x\<in>set pre. js_lt (v2_score js t x) (v2_score js t it)"
       "\<forall>x\<in>set post. \<not> js_gt (v2_score js t x) (v2_score js t it)"
    using chooseBestPool_first_max[of t wsol items js] by blast
  let ?S = "v2_subset t wsol items"
  have mem: "it \<in> set ?S" "set pre \<subseteq> set ?S" "set post \<subseteq> set ?S"
    using p(1) by auto
  have a: "(\<forall>x\<in>set ?S. js_gt (v2_tokenReserve js t x) (Fin 0)) \<longrightarrow>
            (\<forall>x\<in>set pre. js_lt (v2_tokenReserve js t x) (v2_tokenReserve js t it)) \<and>
            (\<forall>x\<in>set post. \<not> js_gt (v2_tokenReserve js t x) (v2_tokenReserve js t it))"
  proof
    assume h: "\<forall>x\<in>set ?S. js_gt (v2_tokenReserve js t x) (Fin 0)"
    have "\<And>x. x \<in> set ?S \<Longrightarrow> v2_score js t x = v2_tokenReserve js t x"
      using v2_score_pos[OF h] .
    with p(3,4) mem
    show "(\<forall>x\<in>set pre. js_lt (v2_tokenReserve js t x) (v2_tokenReserve js t it)) \<and>
            (\<forall>x\<in>set post. \<not> js_gt (v2_tokenReserve js t x) (v2_tokenReserve js t it))"
      by (metis subsetD)
  qed
  have b: "(\<forall>x\<in>set ?S. \<not> js_gt (v2_tokenReserve js t x) (Fin 0)) \<longrightarrow>
            (\<forall>x\<in>set pre. js_lt (v2_tvl js x) (v2_tvl js it)) \<and>
            (\<forall>x\<in>set post. \<not> js_gt (v2_tvl js x) (v2_tvl js it))"
  proof
    assume h: "\<forall>x\<in>set ?S. \<not> js_gt (v2_tokenReserve js t x) (Fin 0)"
    have "\<And>x. x \<in> set ?S \<Longrightarrow> v2_score js t x = v2_tvl js x"
      using v2_score_nonpos[OF h] .
    with p(3,4) mem
    show "(\<forall>x\<in>set pre. js_lt (v2_tvl js x) (v2_tvl js it)) \<and>
            (\<forall>x\<in>set post. \<not> js_gt (v2_tvl js x) (v2_tvl js it))"
      by (metis subsetD)
  qed
  from p a b show "\<exists>pre it post.
         v2_subset t wsol items = pre @ it # post \<and>
         chooseBestPool js items t wsol = Some it \<and>
         (\<forall>x\<in>set pre. js_lt (v2_score js t x) (v2_score js t it)) \<and>
         (\<forall>x\<in>set post. \<not> js_gt (v2_score js t x) (v2_score js t it)) \<and>
         ((\<forall>x\<in>set (v2_subset t wsol items). js_gt (v2_tokenReserve js t x) (Fin 0)) \<longrightarrow>
            (\<forall>x\<in>set pre. js_lt (v2_tokenReserve js t x) (v2_tokenReserve js t it)) \<and>
            (\<forall>x\<in>set post. \<not> js_gt (v2_tokenReserve js t x) (v2_tokenReserve js t it))) \<and>
         ((\<forall>x\<in>set (v2_subset t wsol items). \<not> js_gt (v2_tokenReserve js t x) (Fin 0)) \<longrightarrow>
            (\<forall>x\<in>set pre. js_lt (v2_tvl js x) (v2_tvl js it)) \<and>
            (\<forall>x\<in>set post. \<not> js_gt (v2_tvl js x) (v2_tvl js it)))"
    by blast
next
  assume "dlmm_subset t wsol ditems \<noteq> [] \<and>
    (\<forall>x\<in>set (dlmm_subset t wsol ditems). dlmm_score js t x \<noteq> NaN)"
  then obtain pre it post where
    p: "dlmm_subset t wsol ditems = pre @ it # post"
       "dlmm_snapshotMatch js t wsol ditems =
           (if address it \<noteq> [] then Some (address it) else None)"
       "\<forall>x\<in>set pre. js_lt (dlmm_score js t x) (dlmm_score js t it)"
       "\<forall>x\<in>set post. \<not> js_gt (dlmm_score js t x) (dlmm_score js t it)"
    using dlmm_snapshotMatch_first_max[of t wsol ditems js] by blast
  let ?S = "dlmm_subset t wsol ditems"
  have mem: "it \<in> set ?S" "set pre \<subseteq> set ?S" "set post \<subseteq> set ?S"
    using p(1) by auto
  have a: "(\<forall>x\<in>set ?S. js_gt (dlmm_tokenReserve js t x) (Fin 0)) \<longrightarrow>
            (\<forall>x\<in>set pre. js_lt (dlmm_tokenReserve js t x) (dlmm_tokenReserve js t it)) \<and>
            (\<forall>x\<in>set post. \<not> js_gt (dlmm_tokenReserve js t x) (dlmm_tokenReserve js t it))"
  proof
    assume h: "\<forall>x\<in>set ?S. js_gt (dlmm_tokenReserve js t x) (Fin 0)"
    have "\<And>x. x \<in> set ?S \<Longrightarrow> dlmm_score js t x = dlmm_tokenReserve js t x"
      using dlmm_score_pos[OF h] .
    with p(3,4) mem
    show "(\<forall>x\<in>set pre. js_lt (dlmm_tokenReserve js t x) (dlmm_tokenReserve js t it)) \<and>
            (\<forall>x\<in>set post. \<not> js_gt (dlmm_tokenReserve js t x) (dlmm_tokenReserve js t it))"
      by (metis subsetD)
  qed
  have b: "(\<forall>x\<in>set ?S. \<not> js_gt (dlmm_tokenReserve js t x) (Fin 0)) \<longrightarrow>
            (\<forall>x\<in>set pre. js_lt (dlmm_totalLiq js x) (dlmm_totalLiq js it)) \<and>
            (\<forall>x\<in>set post. \<not> js_gt (dlmm_totalLiq js x) (dlmm_totalLiq js it))"
  proof
    assume h: "\<forall>x\<in>set ?S. \<not> js_gt (dlmm_tokenReserve js t x) (Fin 0)"
    have "\<And>x. x \<in> set ?S \<Longrightarrow> dlmm_score js t x = dlmm_totalLiq js x"
      using dlmm_score_nonpos[OF h] .
    with p(3,4) mem
    show "(\<forall>x\<in>set pre. js_lt (dlmm_totalLiq js x) (dlmm_totalLiq js it)) \<and>
            (\<forall>x\<in>set post. \<not> js_gt (dlmm_totalLiq js x) (dlmm_totalLiq js it))"
      by (metis subsetD)
  qed
  from p a b show "\<exists>pre it post.
         dlmm_subset t wsol ditems = pre @ it # post \<and>
         dlmm_snapshotMatch js t wsol ditems =
           (if address it \<noteq> [] then Some (address it) else None) \<and>
         (\<forall>x\<in>set pre. js_lt (dlmm_score js t x) (dlmm_score js t it)) \<and>
         (\<forall>x\<in>set post. \<not> js_gt (dlmm_score js t x) (dlmm_score js t it)) \<and>
         ((\<forall>x\<in>set (dlmm_subset t wsol ditems). js_gt (dlmm_tokenReserve js t x) (Fin 0)) \<longrightarrow>
            (\<forall>x\<in>set pre. js_lt (dlmm_tokenReserve js t x) (dlmm_tokenReserve js t it)) \<and>
            (\<forall>x\<in>set post. \<not> js_gt (dlmm_tokenReserve js t x) (dlmm_tokenReserve js t it))) \<and>
         ((\<forall>x\<in>set (dlmm_subset t wsol ditems). \<not> js_gt (dlmm_tokenReserve js t x) (Fin 0)) \<longrightarrow>
            (\<forall>x\<in>set pre. js_lt (dlmm_totalLiq js x) (dlmm_totalLiq js it)) \<and>
            (\<forall>x\<in>set post. \<not> js_gt (dlmm_totalLiq js x) (dlmm_totalLiq js it)))"
    by blast
qed

lemmas pool_eval_defs =
  chooseBestPool_def v2_subset_def v2_score_def v2_tokenReserve_def v2_tvl_def reduceBest_def
  bestStep_def dlmm_snapshotMatch_def dlmm_subset_def dlmm_score_def dlmm_tokenReserve_def
  dlmm_totalLiq_def js_gt_def js_or0_def v2_pool_def dlmm_pool_def example_js_def

theorem resolver_prefers_larger_reserve_counterexample:
  "chooseBestPool example_js [v2_pool ''PoolA'' 0 1000, v2_pool ''PoolB'' 5 1] ''MintM'' ''WSOL'' =
     Some (v2_pool ''PoolA'' 0 1000) \<and>
   v2_tokenReserve example_js ''MintM'' (v2_pool ''PoolA'' 0 1000) = Fin 0 \<and>
   v2_tokenReserve example_js ''MintM'' (v2_pool ''PoolB'' 5 1) = Fin 5 \<and>
   dlmm_snapshotMatch example_js ''MintM'' ''WSOL''
     [dlmm_pool ''PairA'' 0 1000, dlmm_pool ''PairB'' 5 1] = Some ''PairA'' \<and>
   dlmm_tokenReserve example_js ''MintM'' (dlmm_pool ''PairA'' 0 1000) = Fin 0 \<and>
   dlmm_tokenReserve example_js ''MintM'' (dlmm_pool ''PairB'' 5 1) = Fin 5"
  by (simp add: pool_eval_defs)

theorem resolver_picks_first_of_best_score_witness:
  "v2_subset ''MintM'' ''WSOL'' example_v2_items = example_v2_items \<and>
   chooseBestPool example_js example_v2_items ''MintM'' ''WSOL'' = Some (v2_pool ''PoolB'' 5 1) \<and>
   dlmm_subset ''MintM'' ''WSOL'' example_dlmm_items = example_dlmm_items \<and>
   dlmm_snapshotMatch example_js ''MintM'' ''WSOL'' example_dlmm_items = Some ''PairA'' \<and>
   (\<exists>pre it post.
      example_v2_items = pre @ it # post \<and>
      chooseBestPool example_js example_v2_items ''MintM'' ''WSOL'' = Some it \<and>
      (\<forall>x\<in>set pre. js_lt (v2_score example_js ''MintM'' x) (v2_score example_js ''MintM'' it)) \<and>
      (\<forall>x\<in>set post. \<not> js_gt (v2_score example_js ''MintM'' x) (v2_score example_js ''MintM'' it)) \<and>
      (\<forall>x\<in>set pre. js_lt (v2_tokenReserve example_js ''MintM'' x)
                            (v2_tokenReserve example_js ''MintM'' it)) \<and>
      (\<forall>x\<in>set post. \<not> js_gt (v2_tokenReserve example_js ''MintM'' x)
                               (v2_tokenReserve example_js ''MintM'' it))) \<and>
   (\<exists>pre it post.
      example_dlmm_items = pre @ it # post \<and>
      dlmm_snapshotMatch example_js ''MintM'' ''WSOL'' example_dlmm_items =
        (if address it \<noteq> [] then Some (address it) else None) \<and>
      (\<forall>x\<in>set pre. js_lt (dlmm_score example_js ''MintM'' x) (dlmm_score example_js ''MintM'' it)) \<and>
      (\<forall>x\<in>set post. \<not> js_gt (dlmm_score example_js ''MintM'' x)
                               (dlmm_score example_js ''MintM'' it)) \<and>
      (\<forall>x\<in>set pre. js_lt (dlmm_totalLiq example_js x) (dlmm_totalLiq example_js it)) \<and>
      (\<forall>x\<in>set post. \<not> js_gt (dlmm_totalLiq example_js x) (dlmm_totalLiq example_js it)))"
proof -
  have s: "v2_subset ''MintM'' ''WSOL'' example_v2_items = example_v2_items"
    by (simp add: v2_subset_def v2_pool_def example_v2_items_def)
  have ds: "dlmm_subset ''MintM'' ''WSOL'' example_dlmm_items = example_dlmm_items"
    by (simp add: dlmm_subset_def dlmm_pool_def example_dlmm_items_def)
  have n: "\<forall>x\<in>set (v2_subset ''MintM'' ''WSOL'' example_v2_items).
             v2_score example_js ''MintM'' x \<noteq> NaN"
    unfolding s by (simp add: pool_eval_defs example_v2_items_def)
  have dn: "\<forall>x\<in>set (dlmm_subset ''MintM'' ''WSOL'' example_dlmm_items).
              dlmm_score example_js ''MintM'' x \<noteq> NaN"
    unfolding ds by (simp add: pool_eval_defs example_dlmm_items_def)
  have ne: "v2_subset ''MintM'' ''WSOL'' example_v2_items \<noteq> []"
    unfolding s by (simp add: example_v2_items_def)
  have dne: "dlmm_subset ''MintM'' ''WSOL'' example_dlmm_items \<noteq> []"
    unfolding ds by (simp add: example_dlmm_items_def)
  have pos: "\<forall>x\<in>set example_v2_items. js_gt (v2_tokenReserve example_js ''MintM'' x) (Fin 0)"
    by (simp add: pool_eval_defs example_v2_items_def)
  have nonpos: "\<forall>x\<in>set example_dlmm_items.
                  \<not> js_gt (dlmm_tokenReserve example_js ''MintM'' x) (Fin 0)"
    by (simp add: pool_eval_defs example_dlmm_items_def)
  note th = resolver_picks_first_of_best_score
              [of "''MintM''" "''WSOL''" example_v2_items example_js example_dlmm_items]
  have 1: "\<exists>pre it post.
      example_v2_items = pre @ it # post \<and>
      chooseBestPool example_js example_v2_items ''MintM'' ''WSOL'' = Some it \<and>
      (\<forall>x\<in>set pre. js_lt (v2_score example_js ''MintM'' x) (v2_score example_js ''MintM'' it)) \<and>
      (\<forall>x\<in>set post. \<not> js_gt (v2_score example_js ''MintM'' x) (v2_score example_js ''MintM'' it)) \<and>
      (\<forall>x\<in>set pre. js_lt (v2_tokenReserve example_js ''MintM'' x)
                            (v2_tokenReserve example_js ''MintM'' it)) \<and>
      (\<forall>x\<in>set post. \<not> js_gt (v2_tokenReserve example_js ''MintM'' x)
                               (v2_tokenReserve example_js ''MintM'' it))"
    using th[THEN conjunct1, THEN mp, OF conjI[OF ne n]] pos unfolding s
    by (elim exE conjE) (drule (1) mp, elim conjE, intro exI conjI; assumption)
  have 2: "\<exists>pre it post.
      example_dlmm_items = pre @ it # post \<and>
      dlmm_snapshotMatch example_js ''MintM'' ''WSOL'' example_dlmm_items =
        (if address it \<noteq> [] then Some (address it) else None) \<and>
      (\<forall>x\<in>set pre. js_lt (dlmm_score example_js ''MintM'' x) (dlmm_score example_js ''MintM'' it)) \<and>
      (\<forall>x\<in>set post. \<not> js_gt (dlmm_score example_js ''MintM'' x)
                               (dlmm_score example_js ''MintM'' it)) \<and>
      (\<forall>x\<in>set pre. js_lt (dlmm_totalLiq example_js x) (dlmm_totalLiq example_js it)) \<and>
      (\<forall>x\<in>set post. \<not> js_gt (dlmm_totalLiq example_js x) (dlmm_totalLiq example_js it))"
    using th[THEN conjunct2, THEN mp, OF conjI[OF dne dn]] nonpos unfolding ds
    by (elim exE conjE) (drule (1) mp, elim conjE, intro exI conjI; assumption)
  have 3: "chooseBestPool example_js example_v2_items ''MintM'' ''WSOL'' =
             Some (v2_pool ''PoolB'' 5 1)"
    by (simp add: pool_eval_defs example_v2_items_def)
  have 4: "dlmm_snapshotMatch example_js ''MintM'' ''WSOL'' example_dlmm_items = Some ''PairA''"
    by (simp add: pool_eval_defs example_dlmm_items_def)
  show ?thesis by (rule conjI[OF s conjI[OF 3 conjI[OF ds conjI[OF 4 conjI[OF 1 2]]]]])
qed

subsection \<open>Pair keys\<close>







section \<open>Properties of the listing caches\<close>

lemma getCacheTtlMs_pos: "\<exists>ttl. getCacheTtlMs env = Fin ttl \<and> 0 < ttl"
  by (cases env) (auto simp: getCacheTtlMs_def js_gt_def)

lemma fresh_iff: "fresh now t env \<longleftrightarrow> (\<exists>ttl. getCacheTtlMs env = Fin ttl \<and> now - t < ttl)"
  using getCacheTtlMs_pos[of env] by (auto simp: fresh_def)

lemma fresh_self: "fresh now now env"
  using getCacheTtlMs_pos[of env] by (auto simp: fresh_def)





































lemma key_MintM_WSOL: "getPairCacheKey ''MintM'' ''WSOL'' = ''MintM-WSOL''"
  by (simp add: getPairCacheKey_def less_eq_char_def less_char_def)

lemmas cache_eval_defs =
  ensureRawPairs_def dlmm_diskRead_def dlmm_networkFetch_def dlmm_store_def fresh_def
  getCacheTtlMs_def dlmm_initial_def dlmm_world_at_def fetchPoolsForTokenPair_def memHit_def
  v2_diskRead_def v2_networkFetch_def queryPools_def dedupByAddress_def v2_initial_def
  v2_world_at_def v2_restarted_def key_MintM_WSOL js_gt_def Let_def



section \<open>Properties of the resolution order\<close>

lemma ensureRawPairs_error:
  "ensureRawPairs w st = (Inl e, st1) \<Longrightarrow> e = TransportError \<or> (\<exists>n. e = ApiStatus n)"
  by (auto simp: ensureRawPairs_def dlmm_networkFetch_def Let_def
           split: if_splits option.splits response.splits)

lemma findMintWsolPair_strategies:
  assumes "findMintWsolPair w js wsol st token = (res, st', trace)"
  shows "prefix trace strategy_order \<and>
         (\<forall>s\<in>set (butlast trace). dlmm_outcome w js wsol st token s = None) \<and>
         (\<forall>pk. res = Inr pk \<longrightarrow>
            trace \<noteq> [] \<and> dlmm_outcome w js wsol st token (last trace) = Some pk) \<and>
         (res = Inl PoolNotFound \<longrightarrow>
            trace = strategy_order \<and>
            (\<forall>s\<in>set strategy_order. dlmm_outcome w js wsol st token s = None))"
proof (cases "ensureRawPairs w st")
  case (Pair r st1)
  show ?thesis
  proof (cases r)
    case (Inl e)
    with Pair assms ensureRawPairs_error[of w st e st1] show ?thesis
      by (auto simp: findMintWsolPair_def strategy_order_def dlmm_outcome_def)
  next
    case (Inr items)
    note e = Pair[unfolded Inr]
    show ?thesis
    proof (cases "dlmm_snapshotMatch js token wsol items")
      case (Some a)
      with e assms show ?thesis
        by (auto simp: findMintWsolPair_def strategy_order_def dlmm_outcome_def toPublicKey_def
                 split: if_splits)
    next
      case snap: None
      let ?st2 = "loadPairsFromApiIfNeeded w wsol st1"
      show ?thesis
      proof (cases "dlmm_cacheMatch ?st2 (normalizeKey token wsol)")
        case (Some c)
        with e snap assms show ?thesis
          by (auto simp: findMintWsolPair_def strategy_order_def dlmm_outcome_def toPublicKey_def
                        Let_def split: if_splits)
      next
        case cache: None
        show ?thesis
        proof (cases "dw_helper w token wsol")
          case (Inl msg)
          with e snap cache assms show ?thesis
            by (auto simp: findMintWsolPair_def strategy_order_def dlmm_outcome_def Let_def)
        next
          case h1: (Inr p1)
          show ?thesis
          proof (cases p1)
            case (Some pair)
            with e snap cache h1 assms show ?thesis
              by (auto simp: findMintWsolPair_def strategy_order_def dlmm_outcome_def Let_def)
          next
            case n1: None
            show ?thesis
            proof (cases "dw_helper w wsol token")
              case (Inl msg)
              with e snap cache h1 n1 assms show ?thesis
                by (auto simp: findMintWsolPair_def strategy_order_def dlmm_outcome_def Let_def)
            next
              case h2: (Inr p2)
              show ?thesis
              proof (cases p2)
                case (Some pair)
                with e snap cache h1 n1 h2 assms show ?thesis
                  by (auto simp: findMintWsolPair_def strategy_order_def dlmm_outcome_def Let_def)
              next
                case n2: None
                show ?thesis
                proof (cases "case dw_getLbPairs w of Inl msg \<Rightarrow> None
                              | Inr all \<Rightarrow> dlmm_scanMatch token wsol all")
                  case (Some pk)
                  with e snap cache h1 n1 h2 n2 assms show ?thesis
                    by (auto simp: findMintWsolPair_def strategy_order_def dlmm_outcome_def Let_def)
                next
                  case None
                  with e snap cache h1 n1 h2 n2 assms show ?thesis
                    by (auto simp: findMintWsolPair_def strategy_order_def dlmm_outcome_def Let_def)
                qed
              qed
            qed
          qed
        qed
      qed
    qed
  qed
qed

lemma findMintWsolPair_exhausted:
  assumes "fst (ensureRawPairs w st) = Inr items"
    and "\<forall>s\<in>set strategy_order. dlmm_outcome w js wsol st token s = None"
    and "\<not> isl (dw_helper w token wsol)" and "\<not> isl (dw_helper w wsol token)"
  shows "fst (findMintWsolPair w js wsol st token) = Inl PoolNotFound \<and>
         snd (snd (findMintWsolPair w js wsol st token)) = strategy_order"
proof -
  obtain st1 where e: "ensureRawPairs w st = (Inr items, st1)"
    using assms(1) by (cases "ensureRawPairs w st") auto
  from assms(2) e have
    a: "dlmm_snapshotMatch js token wsol items = None"
    and b: "dlmm_cacheMatch (loadPairsFromApiIfNeeded w wsol st1) (normalizeKey token wsol) = None"
    and c: "(case dw_helper w token wsol of Inl msg \<Rightarrow> None | Inr p \<Rightarrow> p) = None"
    and d: "(case dw_helper w wsol token of Inl msg \<Rightarrow> None | Inr p \<Rightarrow> p) = None"
    and f: "(case dw_getLbPairs w of Inl msg \<Rightarrow> None
             | Inr all \<Rightarrow> dlmm_scanMatch token wsol all) = None"
    by (simp_all add: strategy_order_def dlmm_outcome_def)
  from c assms(3) have c': "dw_helper w token wsol = Inr None"
    by (cases "dw_helper w token wsol") auto
  from d assms(4) have d': "dw_helper w wsol token = Inr None"
    by (cases "dw_helper w wsol token") auto
  from e a b c' d' f show ?thesis
    by (simp add: findMintWsolPair_def Let_def strategy_order_def)
qed

lemma dlmm_snapshotMatch_nonempty: "dlmm_snapshotMatch js token wsol items = Some a \<Longrightarrow> a \<noteq> []"
  by (auto simp: dlmm_snapshotMatch_def Let_def split: if_splits option.splits)

lemma dlmm_cacheMatch_nonempty: "dlmm_cacheMatch st k = Some a \<Longrightarrow> a \<noteq> []"
  by (auto simp: dlmm_cacheMatch_def split: if_splits option.splits)

lemma v1_not_found_iff:
  "v1_findPoolAddressForMint valid js (Inr items) token wsol = Inl PoolNotFound \<longleftrightarrow>
     v1_subset token wsol items = []"
  by (auto simp: v1_findPoolAddressForMint_def Let_def split: option.splits if_splits)

lemma v1_success_nonempty:
  "v1_findPoolAddressForMint valid js fetched token wsol = Inr a \<Longrightarrow> a \<noteq> []"
  by (auto simp: v1_findPoolAddressForMint_def Let_def split: sum.splits option.splits if_splits)

lemma v2_success_nonempty:
  "fst (v2_findPoolAddressForMint valid js w st token wsol) = Inr a \<Longrightarrow> a \<noteq> []"
  by (auto simp: v2_findPoolAddressForMint_def split: prod.splits sum.splits option.splits if_splits)

lemma v2_not_found:
  "fst (fetchPoolsForTokenPair w st token wsol) = Inr items \<Longrightarrow>
   v2_subset token wsol items = [] \<Longrightarrow>
   fst (v2_findPoolAddressForMint valid js w st token wsol) = Inl PoolNotFound"
  by (cases "fetchPoolsForTokenPair w st token wsol")
     (auto simp: v2_findPoolAddressForMint_def chooseBestPool_def)

text \<open>
  Claim C5. The strategies \<^verbatim>\<open>findMintWsolPair\<close> went through are an initial segment of
  the fixed order (snapshot filter, prebuilt pair cache, SDK helper in both orders,
  registry scan); every strategy but the last one it went through found nothing; a
  success is the match of the last strategy it went through; the not-found error is
  raised only when all strategies were gone through and none found a pool, and it is
  raised then (no lookup being rejected). The DAMM v1 client, which has the snapshot
  filter only, raises the not-found error exactly when the filter leaves nothing, and
  neither it nor the DAMM v2 client ever succeeds with an empty address.
\<close>
theorem pool_resolution_strategy_order:
  "(\<forall>res st' trace. findMintWsolPair w js wsol st token = (res, st', trace) \<longrightarrow>
      prefix trace strategy_order \<and>
      (\<forall>s\<in>set (butlast trace). dlmm_outcome w js wsol st token s = None) \<and>
      (\<forall>pk. res = Inr pk \<longrightarrow>
         trace \<noteq> [] \<and> dlmm_outcome w js wsol st token (last trace) = Some pk) \<and>
      (res = Inl PoolNotFound \<longrightarrow>
         trace = strategy_order \<and>
         (\<forall>s\<in>set strategy_order. dlmm_outcome w js wsol st token s = None))) \<and>
   (fst (ensureRawPairs w st) = Inr items \<and>
    (\<forall>s\<in>set strategy_order. dlmm_outcome w js wsol st token s = None) \<and>
    \<not> isl (dw_helper w token wsol) \<and> \<not> isl (dw_helper w wsol token) \<longrightarrow>
      fst (findMintWsolPair w js wsol st token) = Inl PoolNotFound \<and>
      snd (snd (findMintWsolPair w js wsol st token)) = strategy_order) \<and>
   (v1_findPoolAddressForMint valid js (Inr v1items) token wsol = Inl PoolNotFound \<longleftrightarrow>
      v1_subset token wsol v1items = []) \<and>
   (\<forall>a. v1_findPoolAddressForMint valid js fetched token wsol = Inr a \<longrightarrow> a \<noteq> []) \<and>
   (\<forall>a. fst (v2_findPoolAddressForMint valid js vw vst token wsol) = Inr a \<longrightarrow> a \<noteq> []) \<and>
   (fst (fetchPoolsForTokenPair vw vst token wsol) = Inr v2items \<and>
    v2_subset token wsol v2items = [] \<longrightarrow>
      fst (v2_findPoolAddressForMint valid js vw vst token wsol) = Inl PoolNotFound)"
proof -
  have 1: "\<forall>res st' trace. findMintWsolPair w js wsol st token = (res, st', trace) \<longrightarrow>
      prefix trace strategy_order \<and>
      (\<forall>s\<in>set (butlast trace). dlmm_outcome w js wsol st token s = None) \<and>
      (\<forall>pk. res = Inr pk \<longrightarrow>
         trace \<noteq> [] \<and> dlmm_outcome w js wsol st token (last trace) = Some pk) \<and>
      (res = Inl PoolNotFound \<longrightarrow>
         trace = strategy_order \<and>
         (\<forall>s\<in>set strategy_order. dlmm_outcome w js wsol st token s = None))"
    using findMintWsolPair_strategies[of w js wsol st token] by (intro allI impI)
  have 2: "fst (ensureRawPairs w st) = Inr items \<and>
    (\<forall>s\<in>set strategy_order. dlmm_outcome w js wsol st token s = None) \<and>
    \<not> isl (dw_helper w token wsol) \<and> \<not> isl (dw_helper w wsol token) \<longrightarrow>
      fst (findMintWsolPair w js wsol st token) = Inl PoolNotFound \<and>
      snd (snd (findMintWsolPair w js wsol st token)) = strategy_order"
    using findMintWsolPair_exhausted[of w st items js wsol token] by (intro impI) (elim conjE)
  note 3 = v1_not_found_iff[of valid js v1items token wsol]
  have 4: "\<forall>a. v1_findPoolAddressForMint valid js fetched token wsol = Inr a \<longrightarrow> a \<noteq> []"
    using v1_success_nonempty[of valid js fetched token wsol] by (intro allI impI)
  have 5: "\<forall>a. fst (v2_findPoolAddressForMint valid js vw vst token wsol) = Inr a \<longrightarrow> a \<noteq> []"
    using v2_success_nonempty[of valid js vw vst token wsol] by (intro allI impI)
  have 6: "fst (fetchPoolsForTokenPair vw vst token wsol) = Inr v2items \<and>
    v2_subset token wsol v2items = [] \<longrightarrow>
      fst (v2_findPoolAddressForMint valid js vw vst token wsol) = Inl PoolNotFound"
    using v2_not_found[of vw vst token wsol v2items valid js] by (intro impI) (elim conjE)
  show ?thesis
    by (rule conjI[OF 1 conjI[OF 2 conjI[OF 3 conjI[OF 4 conjI[OF 5 6]]]]])
qed

lemmas dlmm_eval_defs =
  findMintWsolPair_def ensureRawPairs_def dlmm_diskRead_def dlmm_networkFetch_def dlmm_store_def
  fresh_def getCacheTtlMs_def dlmm_initial_def dlmm_world_at_def loadPairsFromApiIfNeeded_def
  dlmm_snapshotMatch_def dlmm_subset_def dlmm_cacheMatch_def dlmm_scanMatch_def
  toPublicKey_def normalizeKey_def js_gt_def Let_def

theorem pool_resolution_strategy_order_witness:
  "findMintWsolPair helper_world example_js ''WSOL'' dlmm_initial ''MintM'' =
     (Inr ''PairH'',
      dlmm_initial\<lparr>rawLoadedAt := 1700000000000, cacheLoadedAt := 1700000000000,
                    dlmm_fetches := 2\<rparr>,
      [SnapshotFilter, PairCacheLookup, SdkHelper, SdkHelperSwapped]) \<and>
   prefix [SnapshotFilter, PairCacheLookup, SdkHelper, SdkHelperSwapped] strategy_order \<and>
   dlmm_outcome helper_world example_js ''WSOL'' dlmm_initial ''MintM'' SdkHelper = None \<and>
   dlmm_outcome helper_world example_js ''WSOL'' dlmm_initial ''MintM'' SdkHelperSwapped =
     Some ''PairH'' \<and>
   fst (findMintWsolPair exhausted_world example_js ''WSOL'' dlmm_initial ''MintM'') =
     Inl PoolNotFound \<and>
   snd (snd (findMintWsolPair exhausted_world example_js ''WSOL'' dlmm_initial ''MintM'')) =
     strategy_order \<and>
   dlmm_outcome exhausted_world example_js ''WSOL'' dlmm_initial ''MintM'' RegistryScan = None \<and>
   v1_findPoolAddressForMint (\<lambda>s. s \<noteq> []) example_js (Inr []) ''MintM'' ''WSOL'' =
     Inl PoolNotFound \<and>
   (v1_findPoolAddressForMint (\<lambda>s. s \<noteq> []) example_js (Inr [v1_pool ''PoolV'' 4]) ''MintM'' ''WSOL'' =
      Inr ''PoolV'' \<and> ''PoolV'' \<noteq> []) \<and>
   (fst (v2_findPoolAddressForMint (\<lambda>s. s \<noteq> []) example_js
           (v2_world_at 1700000001000 FetchRejected True) (v2_restarted 1700000000000)
           ''MintM'' ''WSOL'') = Inr ''PoolA'' \<and> ''PoolA'' \<noteq> []) \<and>
   fst (v2_findPoolAddressForMint (\<lambda>s. s \<noteq> []) example_js
          (v2_world_at 1700000001000 (JsonArray []) True) v2_initial ''MintM'' ''WSOL'') =
     Inl PoolNotFound"
proof -
  let ?st' = "dlmm_initial\<lparr>rawLoadedAt := 1700000000000, cacheLoadedAt := 1700000000000,
                    dlmm_fetches := 2\<rparr>"
  let ?tr = "[SnapshotFilter, PairCacheLookup, SdkHelper, SdkHelperSwapped]"
  let ?valid = "\<lambda>s::string. s \<noteq> []"
  have run: "findMintWsolPair helper_world example_js ''WSOL'' dlmm_initial ''MintM'' =
               (Inr ''PairH'', ?st', ?tr)"
    by (simp add: helper_world_def dlmm_eval_defs)
  note th = pool_resolution_strategy_order
    [where w = helper_world and js = example_js and wsol = "''WSOL''" and st = dlmm_initial
       and token = "''MintM''"]
  note a = th[THEN conjunct1, THEN spec, THEN spec, THEN spec, THEN mp, OF run]
  note pre = a[THEN conjunct1]
  have mem: "SdkHelper \<in> set (butlast ?tr)" by simp
  note bl = a[THEN conjunct2, THEN conjunct1, THEN bspec, OF mem]
  have lst: "last ?tr = SdkHelperSwapped" by simp
  have out: "dlmm_outcome helper_world example_js ''WSOL'' dlmm_initial ''MintM'' SdkHelperSwapped =
               Some ''PairH''"
    using a[THEN conjunct2, THEN conjunct2, THEN conjunct1, THEN spec, THEN mp, OF refl,
            THEN conjunct2]
    unfolding lst .
  have e: "fst (ensureRawPairs exhausted_world dlmm_initial) = Inr []"
    by (simp add: exhausted_world_def dlmm_eval_defs)
  have none: "\<forall>s\<in>set strategy_order.
                dlmm_outcome exhausted_world example_js ''WSOL'' dlmm_initial ''MintM'' s = None"
    by (simp add: strategy_order_def dlmm_outcome_def exhausted_world_def dlmm_eval_defs)
  have h1: "\<not> isl (dw_helper exhausted_world ''MintM'' ''WSOL'')"
    and h2: "\<not> isl (dw_helper exhausted_world ''WSOL'' ''MintM'')"
    by (simp_all add: exhausted_world_def dlmm_world_at_def)
  let ?vw = "v2_world_at 1700000001000 (JsonArray []) True"
  note th2 = pool_resolution_strategy_order
    [where w = exhausted_world and js = example_js and wsol = "''WSOL''" and st = dlmm_initial
       and token = "''MintM''" and items = "[]" and ?v1items = "[]"
       and valid = ?valid and vw = ?vw and vst = v2_initial and ?v2items = "[]"]
  note ex = th2[THEN conjunct2, THEN conjunct1, THEN mp,
                OF conjI[OF e conjI[OF none conjI[OF h1 h2]]]]
  have res: "fst (findMintWsolPair exhausted_world example_js ''WSOL'' dlmm_initial ''MintM'') =
               Inl PoolNotFound \<Longrightarrow>
             findMintWsolPair exhausted_world example_js ''WSOL'' dlmm_initial ''MintM'' =
               (Inl PoolNotFound,
                fst (snd (findMintWsolPair exhausted_world example_js ''WSOL'' dlmm_initial ''MintM'')),
                snd (snd (findMintWsolPair exhausted_world example_js ''WSOL'' dlmm_initial ''MintM'')))"
    by (metis prod.collapse)
  have rs: "RegistryScan \<in> set strategy_order" by (simp add: strategy_order_def)
  note scan = th2[THEN conjunct1, THEN spec, THEN spec, THEN spec, THEN mp,
                  OF res[OF ex[THEN conjunct1]], THEN conjunct2, THEN conjunct2, THEN conjunct2,
                  THEN mp, OF refl, THEN conjunct2, THEN bspec, OF rs]
  have sub: "v1_subset ''MintM'' ''WSOL'' [] = []" by (simp add: v1_subset_def)
  note v1 = th2[THEN conjunct2, THEN conjunct2, THEN conjunct1, THEN iffD2, OF sub]
  have v1run: "v1_findPoolAddressForMint ?valid example_js (Inr [v1_pool ''PoolV'' 4])
                 ''MintM'' ''WSOL'' = Inr ''PoolV''"
    by (simp add: v1_findPoolAddressForMint_def v1_subset_def v1_pool_def reduceBest_def
                  bestStep_def v1_score_def example_js_def js_gt_def Let_def)
  note th3 = pool_resolution_strategy_order
    [where js = example_js and wsol = "''WSOL''" and token = "''MintM''" and valid = ?valid
       and fetched = "Inr [v1_pool ''PoolV'' 4]"
       and vw = "v2_world_at 1700000001000 FetchRejected True"
       and vst = "v2_restarted 1700000000000"]
  note v1ne = th3[THEN conjunct2, THEN conjunct2, THEN conjunct2, THEN conjunct1, THEN spec,
                  THEN mp, OF v1run]
  have v2run: "fst (v2_findPoolAddressForMint ?valid example_js
                 (v2_world_at 1700000001000 FetchRejected True) (v2_restarted 1700000000000)
                 ''MintM'' ''WSOL'') = Inr ''PoolA''"
    by (simp add: v2_findPoolAddressForMint_def chooseBestPool_def v2_subset_def v2_pool_def
                  reduceBest_def bestStep_def v2_score_def v2_tokenReserve_def v2_tvl_def
                  cache_eval_defs)
  note v2ne = th3[THEN conjunct2, THEN conjunct2, THEN conjunct2, THEN conjunct2, THEN conjunct1,
                  THEN spec, THEN mp, OF v2run]
  have f: "fst (fetchPoolsForTokenPair ?vw v2_initial ''MintM'' ''WSOL'') = Inr []"
    by (simp add: cache_eval_defs)
  have s2: "v2_subset ''MintM'' ''WSOL'' [] = []" by (simp add: v2_subset_def)
  note v2nf = th2[THEN conjunct2, THEN conjunct2, THEN conjunct2, THEN conjunct2, THEN conjunct2,
                  THEN mp, OF conjI[OF f s2]]
  show ?thesis
    by (rule conjI[OF run conjI[OF pre conjI[OF bl conjI[OF out conjI[OF ex[THEN conjunct1]
          conjI[OF ex[THEN conjunct2] conjI[OF scan conjI[OF v1 conjI[OF conjI[OF v1run v1ne]
          conjI[OF conjI[OF v2run v2ne] v2nf]]]]]]]]]])
qed


end
